theory Spec2Isabelle
  imports Main "HOL-Library.Sublist"
begin

section \<open>JavaScript values used by the scripts\<close>

text \<open>
  JavaScript strings are modelled as \<^typ>\<open>string\<close>. The line feed that the
  scripts write as \<^verbatim>\<open>\n\<close> is the character \<open>0x0A\<close>.
\<close>

definition LF :: string where
  "LF = [CHR 0x0A]"

text \<open>\<^verbatim>\<open>Array.prototype.join(separator)\<close> on an array of strings.\<close>

fun array_join :: "string \<Rightarrow> string list \<Rightarrow> string" where
  "array_join sep [] = []"
| "array_join sep [x] = x"
| "array_join sep (x # y # ys) = x @ sep @ array_join sep (y # ys)"

text \<open>
  \<^verbatim>\<open>String.prototype.includes(search)\<close>: does \<open>search\<close> occur in the string
  as a contiguous run of characters, at any position.
\<close>

fun includes_str :: "string \<Rightarrow> string \<Rightarrow> bool" where
  "includes_str [] search = (search = [])"
| "includes_str (c # cs) search = (prefix search (c # cs) \<or> includes_str cs search)"

text \<open>
  A rejected promise or a thrown exception. \<open>Thrown\<close> is a failure raised by a
  collaborator outside the scripts (Octokit, the file system); \<open>Error msg cause\<close> is
  \<^verbatim>\<open>new Error(msg, { cause })\<close> raised by the scripts themselves. The cause, when there
  is one, is the array that \<^verbatim>\<open>Promise.allSettled\<close> resolved to.
\<close>

datatype 'e settled = fulfilled | rejected 'e

datatype js_error = Thrown string | Error string "js_error settled list option"


text \<open>
  The decimal text of a non-negative integer, as a template literal renders a number.
\<close>

function string_of_nat :: "nat \<Rightarrow> string" where
  "string_of_nat n =
     (if n < 10 then [''0123456789'' ! n]
      else string_of_nat (n div 10) @ [''0123456789'' ! (n mod 10)])"
  by pat_completeness auto
termination
  by (relation "measure (\<lambda>n. n)") auto

declare string_of_nat.simps [simp del]

section \<open>The objects of \<^verbatim>\<open>.github/workflows/scripts/comments.mjs\<close>\<close>

text \<open>
  An issue comment as the listing returns it: a numeric \<^verbatim>\<open>id\<close> and a \<^verbatim>\<open>body\<close> that
  may be absent (the script reads it with \<^verbatim>\<open>comment.body?.includes\<close>).
\<close>

record issue_comment =
  id_comment :: int
  body_comment :: "string option"

text \<open>
  \<^verbatim>\<open>issueParameters\<close>, and the two objects spread from it:
  \<^verbatim>\<open>{ ...issueParameters, body }\<close> and \<^verbatim>\<open>{ ...issueParameters, body, comment_id }\<close>.
\<close>

record issueParameters =
  issue_number :: int
  owner_param :: string
  repo_param :: string

record createParameters = issueParameters +
  body :: string

record updateParameters = createParameters +
  comment_id :: int

text \<open>
  The Octokit client. Its calls are outside the scripts, so they are parameters of the
  model: each one maps the state of the world \<open>'w\<close> to a result, or a rejection, and the
  next state. \<open>paginate_listComments\<close> stands for
  \<^verbatim>\<open>github.paginate.iterator(github.rest.issues.listComments, issueParameters)\<close> run to
  its end: the finite sequence of pages it yields, or the rejection of a page request.
\<close>

record 'w github =
  paginate_listComments :: "issueParameters \<Rightarrow> 'w \<Rightarrow> (js_error + issue_comment list list) \<times> 'w"
  createComment :: "createParameters \<Rightarrow> 'w \<Rightarrow> (js_error + unit) \<times> 'w"
  updateComment :: "updateParameters \<Rightarrow> 'w \<Rightarrow> (js_error + unit) \<times> 'w"

record repo_context =
  owner :: string
  repo :: string

record github_context =
  repo_of :: repo_context
  runId :: nat

record 'w GithubActionContext =
  github :: "'w github"
  context_of :: github_context
  commit :: string

text \<open>
  What the scripts take from the Node.js process rather than from an argument:
  \<^verbatim>\<open>process.env.GITHUB_RUN_ATTEMPT\<close> (absent or a string) and \<^verbatim>\<open>readFile(path, 'utf8')\<close>
  of \<^verbatim>\<open>node:fs/promises\<close>.
\<close>

record 'w node_process =
  GITHUB_RUN_ATTEMPT :: "string option"
  readFile :: "string \<Rightarrow> 'w \<Rightarrow> (js_error + string) \<times> 'w"

text \<open>
  The objects \<^verbatim>\<open>{ titleText, markerText, bodyText }\<close> taken by \<^verbatim>\<open>comment\<close> and
  \<^verbatim>\<open>{ path, titleText, markerText }\<close> (a \<^verbatim>\<open>DiffComment\<close>) taken by \<^verbatim>\<open>commentDiff\<close>.
\<close>

record titled =
  titleText :: string
  markerText :: string

record comment_text = titled +
  bodyText :: string

record DiffComment = titled +
  path :: string

section \<open>\<^verbatim>\<open>comments.mjs\<close>: the comment upsert\<close>

definition githubActionRunUrl :: "'w node_process \<Rightarrow> github_context \<Rightarrow> string" where
  "githubActionRunUrl process ctx =
     ''https://github.com/'' @ owner (repo_of ctx) @ ''/'' @ repo (repo_of ctx)
       @ ''/actions/runs/'' @ string_of_nat (runId ctx)
       @ ''/attempts/''
       @ (case GITHUB_RUN_ATTEMPT process of None \<Rightarrow> ''undefined'' | Some attempt \<Rightarrow> attempt)"

definition renderCommentFooter :: "'w node_process \<Rightarrow> github_context \<Rightarrow> string \<Rightarrow> string" where
  "renderCommentFooter process ctx commit_sha =
     ''[Action run]('' @ githubActionRunUrl process ctx @ '') for '' @ commit_sha"

text \<open>The constants \<^verbatim>\<open>marker\<close> and \<^verbatim>\<open>body\<close> of \<^verbatim>\<open>comment\<close>.\<close>

definition comment_marker :: "string \<Rightarrow> string" where
  "comment_marker marker_text = ''<!-- '' @ marker_text @ '' -->''"

definition comment_body :: "'w node_process \<Rightarrow> 'w GithubActionContext \<Rightarrow> comment_text \<Rightarrow> string" where
  "comment_body process gac c =
     array_join LF
       [comment_marker (markerText c),
        ''## '' @ titleText c,
        bodyText c,
        LF @ ''---'',
        renderCommentFooter process (context_of gac) (commit gac)]"

text \<open>
  The constant \<^verbatim>\<open>issueParameters\<close> and the two argument objects built from it:
  \<^verbatim>\<open>{ ...issueParameters, body }\<close> and
  \<^verbatim>\<open>{ ...issueParameters, body, comment_id: commentId }\<close>.
\<close>

definition issueParameters_of :: "'w GithubActionContext \<Rightarrow> int \<Rightarrow> issueParameters" where
  "issueParameters_of gac issueNumber =
     \<lparr>issue_number = issueNumber,
      owner_param = owner (repo_of (context_of gac)),
      repo_param = repo (repo_of (context_of gac))\<rparr>"

definition with_body :: "issueParameters \<Rightarrow> string \<Rightarrow> createParameters" where
  "with_body ip body_text =
     \<lparr>issue_number = issue_number ip, owner_param = owner_param ip, repo_param = repo_param ip,
      body = body_text\<rparr>"

definition with_body_comment_id :: "issueParameters \<Rightarrow> string \<Rightarrow> int \<Rightarrow> updateParameters" where
  "with_body_comment_id ip body_text commentId =
     \<lparr>issue_number = issue_number ip, owner_param = owner_param ip, repo_param = repo_param ip,
      body = body_text, comment_id = commentId\<rparr>"

text \<open>The matcher \<^verbatim>\<open>(comment) => !!comment.body?.includes(marker)\<close>.\<close>

definition matcher :: "string \<Rightarrow> issue_comment \<Rightarrow> bool" where
  "matcher marker c = (case body_comment c of None \<Rightarrow> False | Some b \<Rightarrow> includes_str b marker)"

text \<open>
  The \<^verbatim>\<open>for await\<close> loop over the pages: \<open>commentId\<close> starts undefined (\<open>None\<close>), and
  each page whose \<^verbatim>\<open>comments.find(matcher)\<close> finds a comment assigns that comment's id.
\<close>

fun findCommentId :: "string \<Rightarrow> issue_comment list list \<Rightarrow> int option \<Rightarrow> int option" where
  "findCommentId marker [] commentId = commentId"
| "findCommentId marker (comments # pages) commentId =
     (case find (matcher marker) comments of
        None \<Rightarrow> findCommentId marker pages commentId
      | Some c \<Rightarrow> findCommentId marker pages (Some (id_comment c)))"

text \<open>
  \<^verbatim>\<open>!commentId\<close>: true of \<^verbatim>\<open>undefined\<close> and of the number zero.
\<close>

definition not_commentId :: "int option \<Rightarrow> bool" where
  "not_commentId commentId = (case commentId of None \<Rightarrow> True | Some i \<Rightarrow> i = 0)"

text \<open>
  \<^verbatim>\<open>comment\<close>: list every page, then create when \<^verbatim>\<open>!commentId\<close> and update the
  comment with that id otherwise. A rejection of the listing, of the creation or of the
  update is the rejection of \<^verbatim>\<open>comment\<close>.
\<close>

definition comment ::
  "'w node_process \<Rightarrow> 'w GithubActionContext \<Rightarrow> int \<Rightarrow> comment_text \<Rightarrow> 'w \<Rightarrow> (js_error + unit) \<times> 'w" where
  "comment process gac issueNumber c w =
     (let marker = comment_marker (markerText c);
          body_text = comment_body process gac c;
          issue_parameters = issueParameters_of gac issueNumber
      in case paginate_listComments (github gac) issue_parameters w of
           (Inl e, w1) \<Rightarrow> (Inl e, w1)
         | (Inr pages, w1) \<Rightarrow>
             (let commentId = findCommentId marker pages None
              in if not_commentId commentId
                 then createComment (github gac) (with_body issue_parameters body_text) w1
                 else updateComment (github gac)
                        (with_body_comment_id issue_parameters body_text (the commentId)) w1))"

section \<open>\<^verbatim>\<open>comments.mjs\<close>: posting diffs\<close>

text \<open>
  \<^verbatim>\<open>commentDiff\<close>. The read is awaited before the \<^verbatim>\<open>try\<close> block, so its rejection is
  the rejection of \<^verbatim>\<open>commentDiff\<close>; \<^verbatim>\<open>text || 'No changes found.'\<close> replaces the
  empty string only. A rejection of the first \<^verbatim>\<open>comment\<close> is caught and dropped, and the
  second \<^verbatim>\<open>comment\<close> runs from the state the first one left.
\<close>

definition commentDiff ::
  "'w node_process \<Rightarrow> 'w GithubActionContext \<Rightarrow> int \<Rightarrow> DiffComment \<Rightarrow> 'w \<Rightarrow> (js_error + unit) \<times> 'w" where
  "commentDiff process gac issueNumber d w =
     (case readFile process (path d) w of
        (Inl e, w1) \<Rightarrow> (Inl e, w1)
      | (Inr contents, w1) \<Rightarrow>
          (let diffText = (if contents = [] then ''No changes found.'' else contents)
           in case comment process gac issueNumber
                     \<lparr>titleText = titleText d, markerText = markerText d,
                      bodyText = ''```diff'' @ LF @ (diffText @ LF) @ ''```''\<rparr> w1 of
                (Inr u, w2) \<Rightarrow> (Inr u, w2)
              | (Inl e, w2) \<Rightarrow>
                  comment process gac issueNumber
                    \<lparr>titleText = titleText d, markerText = markerText d,
                     bodyText =
                       ''The diff could not be posted as a comment. You can download it from the [workflow artifacts](''
                         @ githubActionRunUrl process (context_of gac) @ ''#artifacts).''\<rparr> w2))"

section \<open>\<^verbatim>\<open>comments.mjs\<close>: posting several diffs\<close>

text \<open>
  \<^verbatim>\<open>commentDiffs\<close> calls \<^verbatim>\<open>commentDiff\<close> on every diff before it awaits anything, so the
  calls run interleaved. To follow them, a call is modelled by the promise it returns.
  A promise is settled, with a rejection or a value, or it is pending on one operation
  of a collaborator: when that operation completes, the world changes by \<open>effect\<close>
  and the promise goes on as \<open>next\<close> of the world the operation met. Every promise
  of this type settles after finitely many operations.
\<close>

datatype ('w, 'a) promise =
    Settled "js_error + 'a"
  | Pending "'w \<Rightarrow> 'w" "'w \<Rightarrow> ('w, 'a) promise"

text \<open>
  \<^verbatim>\<open>const v = await p\<close> followed by the rest of an \<^verbatim>\<open>async\<close> function: a rejection of
  \<open>p\<close> rejects the function, a value is handed to the rest.
\<close>

primrec await :: "('w, 'a) promise \<Rightarrow> ('a \<Rightarrow> ('w, 'b) promise) \<Rightarrow> ('w, 'b) promise" where
  "await (Settled r) continue = (case r of Inl e \<Rightarrow> Settled (Inl e) | Inr v \<Rightarrow> continue v)"
| "await (Pending effect next) continue = Pending effect (\<lambda>w. await (next w) continue)"

text \<open>\<^verbatim>\<open>try { await p } catch { ... }\<close>: a rejection of \<open>p\<close> starts the handler.\<close>

primrec try_catch :: "('w, 'a) promise \<Rightarrow> (js_error \<Rightarrow> ('w, 'a) promise) \<Rightarrow> ('w, 'a) promise" where
  "try_catch (Settled r) handler = (case r of Inl e \<Rightarrow> handler e | Inr v \<Rightarrow> Settled (Inr v))"
| "try_catch (Pending effect next) handler = Pending effect (\<lambda>w. try_catch (next w) handler)"

text \<open>
  A promise awaited with nothing else running: its operations complete one after the
  other. This is how the functions of the sections above treat each call.
\<close>

primrec run_alone :: "('w, 'a) promise \<Rightarrow> 'w \<Rightarrow> (js_error + 'a) \<times> 'w" where
  "run_alone (Settled r) = (\<lambda>w. (r, w))"
| "run_alone (Pending effect next) = (\<lambda>w. run_alone (next w) (effect w))"

text \<open>
  The calls to the collaborators, as the promises they return: \<^verbatim>\<open>readFile(path, 'utf8')\<close>,
  the iteration of \<^verbatim>\<open>github.paginate.iterator(github.rest.issues.listComments, ...)\<close>
  (pending once for every page request and fulfilled with the pages it yielded),
  \<^verbatim>\<open>github.rest.issues.createComment\<close> and \<^verbatim>\<open>github.rest.issues.updateComment\<close>. How
  many operations a call takes, and what each does to the world, is the collaborator's.
\<close>

record 'w calls =
  readFile_call :: "string \<Rightarrow> ('w, string) promise"
  paginate_call :: "issueParameters \<Rightarrow> ('w, issue_comment list list) promise"
  createComment_call :: "createParameters \<Rightarrow> ('w, unit) promise"
  updateComment_call :: "updateParameters \<Rightarrow> ('w, unit) promise"

text \<open>
  \<^verbatim>\<open>comment\<close> and \<^verbatim>\<open>commentDiff\<close> as the promises they return. They are the functions
  of the sections above with every awaited call replaced by its promise; the loop body
  touches nothing but \<^verbatim>\<open>commentId\<close>, so it is applied to the pages once they are all
  there.
\<close>

definition comment_async ::
  "'w calls \<Rightarrow> 'w node_process \<Rightarrow> 'w GithubActionContext \<Rightarrow> int \<Rightarrow> comment_text \<Rightarrow> ('w, unit) promise" where
  "comment_async calls process gac issueNumber c =
     (let marker = comment_marker (markerText c);
          body_text = comment_body process gac c;
          issue_parameters = issueParameters_of gac issueNumber
      in await (paginate_call calls issue_parameters)
           (\<lambda>pages.
              let commentId = findCommentId marker pages None
              in if not_commentId commentId
                 then createComment_call calls (with_body issue_parameters body_text)
                 else updateComment_call calls
                        (with_body_comment_id issue_parameters body_text (the commentId))))"

definition commentDiff_async ::
  "'w calls \<Rightarrow> 'w node_process \<Rightarrow> 'w GithubActionContext \<Rightarrow> int \<Rightarrow> DiffComment \<Rightarrow> ('w, unit) promise" where
  "commentDiff_async calls process gac issueNumber d =
     await (readFile_call calls (path d))
       (\<lambda>contents.
          let diffText = (if contents = [] then ''No changes found.'' else contents)
          in try_catch
               (comment_async calls process gac issueNumber
                  \<lparr>titleText = titleText d, markerText = markerText d,
                   bodyText = ''```diff'' @ LF @ (diffText @ LF) @ ''```''\<rparr>)
               (\<lambda>e. comment_async calls process gac issueNumber
                  \<lparr>titleText = titleText d, markerText = markerText d,
                   bodyText =
                     ''The diff could not be posted as a comment. You can download it from the [workflow artifacts](''
                       @ githubActionRunUrl process (context_of gac) @ ''#artifacts).''\<rparr>))"

text \<open>
  How a promise has settled, as \<^verbatim>\<open>Promise.allSettled\<close> reports it
  (\<^verbatim>\<open>{ status: 'fulfilled' }\<close> or \<^verbatim>\<open>{ status: 'rejected', reason }\<close>); a pending promise
  has not.
\<close>

fun outcome :: "('w, 'a) promise \<Rightarrow> js_error settled option" where
  "outcome (Settled (Inl e)) = Some (rejected e)"
| "outcome (Settled (Inr v)) = Some fulfilled"
| "outcome (Pending effect next) = None"


text \<open>
  Several promises at once. The operation that the promise at position \<open>i\<close> is pending
  on completes: the world changes and that promise goes on; the others stay as they
  are. Nothing happens when that promise is settled already or there is none.
\<close>

fun settle_next :: "nat \<Rightarrow> ('w, 'a) promise list \<times> 'w \<Rightarrow> ('w, 'a) promise list \<times> 'w" where
  "settle_next i (promises, w) =
     (if i < length promises
      then (case promises ! i of
              Settled r \<Rightarrow> (promises, w)
            | Pending effect next \<Rightarrow> (promises[i := next w], effect w))
      else (promises, w))"

text \<open>
  A schedule is the order in which the pending operations complete, given by the
  positions of their promises. The scripts do not choose it.
\<close>

definition run_schedule :: "nat list \<Rightarrow> ('w, 'a) promise list \<times> 'w \<Rightarrow> ('w, 'a) promise list \<times> 'w" where
  "run_schedule schedule state = fold settle_next schedule state"

text \<open>
  \<^verbatim>\<open>Promise.allSettled(promises)\<close> after a schedule: once every promise is settled it is
  fulfilled with their outcomes in the order of the array; until then it is pending
  (\<open>None\<close>).
\<close>

definition allSettled ::
  "('w, 'a) promise list \<Rightarrow> nat list \<Rightarrow> 'w \<Rightarrow> js_error settled list option \<times> 'w" where
  "allSettled promises schedule w =
     (case run_schedule schedule (promises, w) of
        (promises1, w1) \<Rightarrow> (those (map outcome promises1), w1))"

text \<open>\<^verbatim>\<open>result.status === 'rejected'\<close>.\<close>

fun is_rejected :: "'e settled \<Rightarrow> bool" where
  "is_rejected fulfilled = False"
| "is_rejected (rejected e) = True"

text \<open>
  \<^verbatim>\<open>commentDiffs\<close> after a schedule. \<^verbatim>\<open>diffs.map\<close> starts \<^verbatim>\<open>commentDiff\<close> on every diff;
  while \<^verbatim>\<open>await Promise.allSettled(...)\<close> is pending, so is \<^verbatim>\<open>commentDiffs\<close> (\<open>None\<close>);
  after it, \<^verbatim>\<open>commentDiffs\<close> throws the error with the results as cause when some
  result is a rejection, and returns otherwise.
\<close>

definition commentDiffs ::
  "'w calls \<Rightarrow> 'w node_process \<Rightarrow> 'w GithubActionContext \<Rightarrow> int \<Rightarrow> DiffComment list \<Rightarrow> nat list \<Rightarrow> 'w
     \<Rightarrow> (js_error + unit) option \<times> 'w" where
  "commentDiffs calls process gac issueNumber diffs schedule w =
     (case allSettled (map (\<lambda>diff. commentDiff_async calls process gac issueNumber diff) diffs) schedule w of
        (None, w1) \<Rightarrow> (None, w1)
      | (Some results, w1) \<Rightarrow>
          if list_ex is_rejected results
          then (Some (Inl (Error ''Posting diff comment failed'' (Some results))), w1)
          else (Some (Inr ()), w1))"


section \<open>\<^verbatim>\<open>comments.mjs\<close>: Markdown tables\<close>

text \<open>
  \<^verbatim>\<open>renderTable(headers, rows)\<close> throws when a row has not as many cells as there are
  headers, and otherwise returns the header row, the separator row and one row for each
  element of \<open>rows\<close>, joined by line feeds and ended by one.
\<close>

definition renderTable :: "string list \<Rightarrow> string list list \<Rightarrow> js_error + string" where
  "renderTable headers rows =
     (if \<not> list_all (\<lambda>row. length row = length headers) rows
      then Inl (Error ''All rows must have the same number of elements as the headers.'' None)
      else
        let headerRow = ''| '' @ array_join '' | '' headers @ '' |'';
            headerSeparator = ''| '' @ array_join '' | '' (replicate (length headers) ''---'') @ '' |'';
            rowStrings = map (\<lambda>row. ''| '' @ array_join '' | '' row @ '' |'') rows
        in Inr (array_join LF ([headerRow, headerSeparator] @ rowStrings) @ LF))"

section \<open>The earlier comment script (\<^verbatim>\<open>src/unnamed/part_000\<close>)\<close>

text \<open>
  The \<^verbatim>\<open>comment\<close> of the earlier script takes the issue number from its context object
  and the marker and body as two strings. Its marker ends with a line feed and its body
  is the marker followed by the text; the loop and the choice between creating and
  updating are those of \<^verbatim>\<open>comments.mjs\<close>.
\<close>

definition comment_part_000 ::
  "'w GithubActionContext \<Rightarrow> int \<Rightarrow> string \<Rightarrow> string \<Rightarrow> 'w \<Rightarrow> (js_error + unit) \<times> 'w" where
  "comment_part_000 gac issueNumber marker_text body_arg w =
     (let marker = ''<!-- '' @ marker_text @ '' -->'' @ LF;
          body_text = marker @ body_arg;
          issue_parameters = issueParameters_of gac issueNumber
      in case paginate_listComments (github gac) issue_parameters w of
           (Inl e, w1) \<Rightarrow> (Inl e, w1)
         | (Inr pages, w1) \<Rightarrow>
             (let commentId = findCommentId marker pages None
              in if not_commentId commentId
                 then createComment (github gac) (with_body issue_parameters body_text) w1
                 else updateComment (github gac)
                        (with_body_comment_id issue_parameters body_text (the commentId)) w1))"

section \<open>\<^verbatim>\<open>packages/govuk-frontend/tasks/build/package.mjs\<close>\<close>

text \<open>
  The options object of a task (\<^verbatim>\<open>basePath\<close>, \<^verbatim>\<open>srcPath\<close>, \<^verbatim>\<open>destPath\<close>), and what
  \<^verbatim>\<open>npm.script\<close> is given as its third argument: the literal \<^verbatim>\<open>{ basePath: ... }\<close> or
  the options object of the task itself.
\<close>

record TaskOptions =
  basePath :: string
  srcPath :: string
  destPath :: string

datatype script_options = BasePathOnly string | TaskOptionsOf TaskOptions

text \<open>
  The tasks that the build composes. Each constructor is a call the module makes:
  \<^verbatim>\<open>npm.script(name, args, options)\<close>, the five task factories imported from
  \<^verbatim>\<open>../index.mjs\<close>, \<^verbatim>\<open>files.copy(pattern, { srcPath, destPath })\<close>,
  \<^verbatim>\<open>task.name(name, fn)\<close> and \<^verbatim>\<open>gulp.series(...)\<close>, whose arguments run one after the
  other in the order written.
\<close>

datatype gulp_task =
    npm_script string "string list" script_options
  | assets TaskOptions
  | fixtures TaskOptions
  | scripts TaskOptions
  | styles TaskOptions
  | templates TaskOptions
  | files_copy string string string
  | task_name string gulp_task
  | gulp_series "gulp_task list"

text \<open>
  The default export. \<^verbatim>\<open>paths.stats\<close> of \<^verbatim>\<open>@govuk-frontend/config\<close> and \<^verbatim>\<open>join\<close> of
  \<^verbatim>\<open>path\<close> are outside the module and are parameters here.
\<close>

definition package :: "string \<Rightarrow> (string \<Rightarrow> string \<Rightarrow> string) \<Rightarrow> TaskOptions \<Rightarrow> gulp_task" where
  "package paths_stats path_join options =
     gulp_series
       [npm_script ''clean'' [] (BasePathOnly paths_stats),
        npm_script ''clean:package'' [] (TaskOptionsOf options),
        assets options,
        fixtures options,
        scripts options,
        styles options,
        templates options,
        task_name (''copy:files '' @ [CHR 0x27] @ ''govuk-prototype-kit'' @ [CHR 0x27])
          (files_copy ''**/*.js''
             (path_join (srcPath options) ''govuk-prototype-kit'')
             (path_join (destPath options) ''govuk-prototype-kit''))]"

text \<open>The steps of a task in the order \<^verbatim>\<open>gulp.series\<close> runs them.\<close>

fun steps :: "gulp_task \<Rightarrow> gulp_task list" where
  "steps (gulp_series ts) = concat (map steps ts)"
| "steps t = [t]"

section \<open>A model of the collaborators: files and issue comments\<close>

text \<open>
  The file system and the GitHub API are outside the scripts. To run the scripts on
  concrete inputs, and to state what they leave behind, this section gives one world
  for the parameters above: files by path, the comments of each issue in the order of
  their creation, the id the next created comment receives, the size of a page of the
  listing, and a plan of failures (each creating or updating call takes the head of
  the plan and is rejected when it is \<open>True\<close>; with no plan left, calls succeed).
\<close>

record world =
  files_of :: "string \<Rightarrow> string option"
  comments_of :: "int \<Rightarrow> issue_comment list"
  next_id :: int
  per_page :: nat
  failures :: "bool list"

text \<open>The pages of a listing: runs of \<open>n\<close> comments, the last one possibly shorter.\<close>

function chunk :: "nat \<Rightarrow> 'a list \<Rightarrow> 'a list list" where
  "chunk n xs = (if n = 0 \<or> xs = [] then [] else take n xs # chunk n (drop n xs))"
  by pat_completeness auto
termination
  by (relation "measure (\<lambda>(n, xs). length xs)") auto

declare chunk.simps [simp del]

definition world_readFile :: "string \<Rightarrow> world \<Rightarrow> (js_error + string) \<times> world" where
  "world_readFile p w =
     (case files_of w p of
        None \<Rightarrow> (Inl (Thrown ''ENOENT''), w)
      | Some contents \<Rightarrow> (Inr contents, w))"

definition world_listComments :: "issueParameters \<Rightarrow> world \<Rightarrow> (js_error + issue_comment list list) \<times> world" where
  "world_listComments ip w = (Inr (chunk (per_page w) (comments_of w (issue_number ip))), w)"

text \<open>Creating appends a comment with the next id to the comments of the issue.\<close>

definition world_createComment :: "createParameters \<Rightarrow> world \<Rightarrow> (js_error + unit) \<times> world" where
  "world_createComment cp w =
     (case failures w of
        True # plan \<Rightarrow> (Inl (Thrown ''HttpError''), w\<lparr>failures := plan\<rparr>)
      | _ \<Rightarrow>
          (Inr (),
           w\<lparr>comments_of := (comments_of w)
                (issue_number cp :=
                   comments_of w (issue_number cp)
                     @ [\<lparr>id_comment = next_id w, body_comment = Some (body cp)\<rparr>]),
             next_id := next_id w + 1,
             failures := tl (failures w)\<rparr>))"

text \<open>
  Updating replaces the body of every comment of the issue that has the given id, and
  is rejected when the issue has none.
\<close>

definition world_updateComment :: "updateParameters \<Rightarrow> world \<Rightarrow> (js_error + unit) \<times> world" where
  "world_updateComment up w =
     (case failures w of
        True # plan \<Rightarrow> (Inl (Thrown ''HttpError''), w\<lparr>failures := plan\<rparr>)
      | _ \<Rightarrow>
          if \<not> list_ex (\<lambda>c. id_comment c = comment_id up) (comments_of w (issue_number up))
          then (Inl (Thrown ''Not Found''), w\<lparr>failures := tl (failures w)\<rparr>)
          else
            (Inr (),
             w\<lparr>comments_of := (comments_of w)
                  (issue_number up :=
                     map (\<lambda>c. if id_comment c = comment_id up
                               then c\<lparr>body_comment := Some (body up)\<rparr> else c)
                       (comments_of w (issue_number up))),
               failures := tl (failures w)\<rparr>))"

definition world_github :: "world github" where
  "world_github =
     \<lparr>paginate_listComments = world_listComments,
      createComment = world_createComment,
      updateComment = world_updateComment\<rparr>"

definition world_process :: "string option \<Rightarrow> world node_process" where
  "world_process attempt = \<lparr>GITHUB_RUN_ATTEMPT = attempt, readFile = world_readFile\<rparr>"

definition world_context :: "github_context \<Rightarrow> string \<Rightarrow> world GithubActionContext" where
  "world_context ctx sha = \<lparr>github = world_github, context_of = ctx, commit = sha\<rparr>"

text \<open>The comments of an issue whose body contains the marker.\<close>

definition marked_comments :: "string \<Rightarrow> int \<Rightarrow> world \<Rightarrow> issue_comment list" where
  "marked_comments marker issueNumber w = filter (matcher marker) (comments_of w issueNumber)"

text \<open>
  The calls on this world. Each takes one operation, which does what the function of
  the same name above does.
\<close>

definition one_call :: "('w \<Rightarrow> (js_error + 'a) \<times> 'w) \<Rightarrow> ('w, 'a) promise" where
  "one_call f = Pending (\<lambda>w. snd (f w)) (\<lambda>w. Settled (fst (f w)))"

definition world_calls :: "world calls" where
  "world_calls =
     \<lparr>readFile_call = (\<lambda>p. one_call (world_readFile p)),
      paginate_call = (\<lambda>ip. one_call (world_listComments ip)),
      createComment_call = (\<lambda>cp. one_call (world_createComment cp)),
      updateComment_call = (\<lambda>up. one_call (world_updateComment up))\<rparr>"

section \<open>The recorded id, in the words of the specification\<close>

text \<open>
  The specification describes the id the loop records without the loop: it is taken
  from the last page scanned that contains a match, and none is recorded when no page
  contains one. On that page the comment is the one \<^verbatim>\<open>find\<close> returns.
\<close>

definition recorded_id_spec :: "string \<Rightarrow> issue_comment list list \<Rightarrow> int option" where
  "recorded_id_spec marker pages =
     (case filter (list_ex (matcher marker)) pages of
        [] \<Rightarrow> None
      | p # ps \<Rightarrow> map_option id_comment (find (matcher marker) (last (p # ps))))"

section \<open>Sample inputs\<close>

text \<open>
  A process with run attempt 1, the context of run 7 of \<^verbatim>\<open>alphagov/govuk-frontend\<close> at
  commit \<^verbatim>\<open>abc\<close>, and a world in which issue 5 has the given comments, listed one per
  page, and the workspace holds an empty \<^verbatim>\<open>a.diff\<close> and a one-line \<^verbatim>\<open>b.diff\<close>.
\<close>

definition sample_process :: "world node_process" where
  "sample_process = world_process (Some ''1'')"

definition sample_context :: "world GithubActionContext" where
  "sample_context =
     world_context \<lparr>repo_of = \<lparr>owner = ''alphagov'', repo = ''govuk-frontend''\<rparr>, runId = 7\<rparr> ''abc''"

definition sample_world :: "issue_comment list \<Rightarrow> bool list \<Rightarrow> world" where
  "sample_world comments plan =
     \<lparr>files_of = [''a.diff'' \<mapsto> [], ''b.diff'' \<mapsto> ''+x''],
      comments_of = (\<lambda>issue. if issue = 5 then comments else []),
      next_id = 100,
      per_page = 1,
      failures = plan\<rparr>"

section \<open>Lemmas: strings, the page loop, the listing\<close>

lemma includes_str_sublist: "includes_str s m \<longleftrightarrow> sublist m s"
  by (induction s) (auto simp: sublist_Cons_right)

lemma findCommentId_append:
  "findCommentId marker (ps @ qs) cid = findCommentId marker qs (findCommentId marker ps cid)"
  by (induction ps arbitrary: cid) (auto split: option.splits)

lemma findCommentId_no_match:
  "\<forall>p \<in> set ps. find (matcher marker) p = None \<Longrightarrow> findCommentId marker ps cid = cid"
  by (induction ps arbitrary: cid) auto

lemma find_filter: "find P xs = (case filter P xs of [] \<Rightarrow> None | x # _ \<Rightarrow> Some x)"
  by (induction xs) auto

lemma findCommentId_none:
  "filter (matcher marker) (concat pages) = [] \<Longrightarrow> findCommentId marker pages cid = cid"
  by (induction pages arbitrary: cid) (auto simp: find_filter split: list.splits)

lemma findCommentId_unique:
  "filter (matcher marker) (concat pages) = [c] \<Longrightarrow> findCommentId marker pages cid = Some (id_comment c)"
proof (induction pages arbitrary: cid)
  case Nil
  then show ?case by simp
next
  case (Cons p ps)
  from Cons.prems have split: "filter (matcher marker) p @ filter (matcher marker) (concat ps) = [c]"
    by simp
  then consider
    (here) "filter (matcher marker) p = [c]" "filter (matcher marker) (concat ps) = []"
    | (later) "filter (matcher marker) p = []" "filter (matcher marker) (concat ps) = [c]"
    by (auto simp: append_eq_Cons_conv)
  then show ?case
  proof cases
    case here
    then show ?thesis by (simp add: find_filter findCommentId_none)
  next
    case later
    then show ?thesis by (simp add: find_filter Cons.IH)
  qed
qed

lemma concat_chunk: "0 < n \<Longrightarrow> concat (chunk n xs) = xs"
proof (induction n xs rule: chunk.induct)
  case (1 n xs)
  then show ?case by (subst chunk.simps) auto
qed

lemma findCommentId_found:
  "findCommentId marker pages cid = Some k \<Longrightarrow> cid = Some k \<or> (\<exists>c \<in> set (concat pages). id_comment c = k)"
proof (induction pages arbitrary: cid)
  case Nil
  then show ?case by simp
next
  case (Cons p ps)
  show ?case
  proof (cases "find (matcher marker) p")
    case None
    with Cons show ?thesis by auto
  next
    case (Some c)
    then have "c \<in> set p" by (auto simp: find_Some_iff)
    with Cons Some show ?thesis by fastforce
  qed
qed

lemma find_None_list_ex: "find P xs = None \<longleftrightarrow> \<not> list_ex P xs"
  by (auto simp: find_None_iff list_ex_iff)

lemma findCommentId_recorded_id_spec:
  "findCommentId marker pages cid =
     (case recorded_id_spec marker pages of None \<Rightarrow> cid | Some i \<Rightarrow> Some i)"
proof (induction pages arbitrary: cid)
  case Nil
  then show ?case by (simp add: recorded_id_spec_def)
next
  case (Cons p ps)
  show ?case
  proof (cases "find (matcher marker) p")
    case None
    then have "\<not> list_ex (matcher marker) p" by (simp add: find_None_list_ex)
    then have "recorded_id_spec marker (p # ps) = recorded_id_spec marker ps"
      by (simp add: recorded_id_spec_def)
    with None Cons.IH show ?thesis by simp
  next
    case (Some c)
    then have ex: "list_ex (matcher marker) p"
      using find_None_list_ex [of "matcher marker" p] by auto
    show ?thesis
    proof (cases "filter (list_ex (matcher marker)) ps")
      case Nil
      with ex Some have "recorded_id_spec marker (p # ps) = Some (id_comment c)"
        by (simp add: recorded_id_spec_def)
      moreover from Nil have "recorded_id_spec marker ps = None"
        by (simp add: recorded_id_spec_def)
      ultimately show ?thesis using Some Cons.IH by simp
    next
      case (Cons q qs)
      have "last (q # qs) \<in> set (filter (list_ex (matcher marker)) ps)"
        using Cons last_in_set [of "q # qs"] by simp
      then have "list_ex (matcher marker) (last (q # qs))" by simp
      then obtain d where d: "find (matcher marker) (last (q # qs)) = Some d"
        using find_None_list_ex [of "matcher marker" "last (q # qs)"] by auto
      with ex Cons have "recorded_id_spec marker (p # ps) = recorded_id_spec marker ps"
        by (simp add: recorded_id_spec_def)
      moreover from d Cons have "recorded_id_spec marker ps = Some (id_comment d)"
        by (simp add: recorded_id_spec_def)
      ultimately show ?thesis using Some Cons.IH by simp
    qed
  qed
qed

lemma chunk_Nil [simp]: "chunk n [] = []"
  by (subst chunk.simps) simp

lemma chunk_Suc_Cons [simp]: "chunk (Suc n) (x # xs) = (x # take n xs) # chunk (Suc n) (drop n xs)"
  by (subst chunk.simps) simp

lemmas world_defs = world_github_def world_process_def world_context_def world_readFile_def
  world_listComments_def world_createComment_def world_updateComment_def

lemmas comment_defs = comment_def comment_body_def comment_marker_def renderCommentFooter_def
  githubActionRunUrl_def issueParameters_of_def with_body_def with_body_comment_id_def
  not_commentId_def matcher_def LF_def Let_def

lemmas sample_defs = sample_process_def sample_context_def sample_world_def

lemma string_of_nat_7: "string_of_nat 7 = ''7''"
  by (subst string_of_nat.simps) simp

lemma comment_after_listing:
  assumes "paginate_listComments (github gac) (issueParameters_of gac issueNumber) w = (Inr pages, w1)"
  shows "comment process gac issueNumber c w =
     (case findCommentId (comment_marker (markerText c)) pages None of
        None \<Rightarrow> createComment (github gac)
                  (with_body (issueParameters_of gac issueNumber) (comment_body process gac c)) w1
      | Some i \<Rightarrow>
          if i = 0
          then createComment (github gac)
                 (with_body (issueParameters_of gac issueNumber) (comment_body process gac c)) w1
          else updateComment (github gac)
                 (with_body_comment_id (issueParameters_of gac issueNumber)
                    (comment_body process gac c) i) w1)"
  using assms by (simp add: comment_def Let_def not_commentId_def split: option.splits)

lemma comment_part_000_after_listing:
  assumes "paginate_listComments (github gac) (issueParameters_of gac issueNumber) w = (Inr pages, w1)"
  shows "comment_part_000 gac issueNumber marker_text body_arg w =
     (case findCommentId (''<!-- '' @ marker_text @ '' -->'' @ LF) pages None of
        None \<Rightarrow> createComment (github gac)
                  (with_body (issueParameters_of gac issueNumber)
                     ((''<!-- '' @ marker_text @ '' -->'' @ LF) @ body_arg)) w1
      | Some i \<Rightarrow>
          if i = 0
          then createComment (github gac)
                 (with_body (issueParameters_of gac issueNumber)
                    ((''<!-- '' @ marker_text @ '' -->'' @ LF) @ body_arg)) w1
          else updateComment (github gac)
                 (with_body_comment_id (issueParameters_of gac issueNumber)
                    ((''<!-- '' @ marker_text @ '' -->'' @ LF) @ body_arg) i) w1)"
  using assms by (simp add: comment_part_000_def Let_def not_commentId_def split: option.splits)

section \<open>The Markdown table\<close>

text \<open>
  Claim C8. \<^verbatim>\<open>renderTable\<close> throws, and so returns no table, exactly when some row has
  not as many cells as there are headers; and for the headers File and Size and the
  rows (a.js, 1 KiB) and (b.css, 2 KiB) it returns four lines: the header row, the
  divider row of two \<^verbatim>\<open>---\<close> cells, and the two rows, each delimited by pipes.
\<close>

theorem renderTable_throws_iff_row_length_differs:
  "((\<exists>e. renderTable headers rows = Inl e) \<longleftrightarrow> (\<exists>row \<in> set rows. length row \<noteq> length headers))
   \<and> renderTable [''File'', ''Size''] [[''a.js'', ''1 KiB''], [''b.css'', ''2 KiB'']]
       = Inr (''| File | Size |'' @ LF @ ''| --- | --- |'' @ LF
              @ ''| a.js | 1 KiB |'' @ LF @ ''| b.css | 2 KiB |'' @ LF)"
proof
  show "(\<exists>e. renderTable headers rows = Inl e) \<longleftrightarrow> (\<exists>row \<in> set rows. length row \<noteq> length headers)"
    by (auto simp: renderTable_def Let_def list_all_iff)
  show "renderTable [''File'', ''Size''] [[''a.js'', ''1 KiB''], [''b.css'', ''2 KiB'']]
       = Inr (''| File | Size |'' @ LF @ ''| --- | --- |'' @ LF
              @ ''| a.js | 1 KiB |'' @ LF @ ''| b.css | 2 KiB |'' @ LF)"
    by (simp add: renderTable_def LF_def numeral_eq_Suc)
qed

theorem renderTable_throws_witness:
  "(\<exists>row \<in> set [[''a.js'']]. length row \<noteq> length [''File'', ''Size''])
   \<and> (\<exists>e. renderTable [''File'', ''Size''] [[''a.js'']] = Inl e)"
  using renderTable_throws_iff_row_length_differs [of "[''File'', ''Size'']" "[[''a.js'']]"]
  by simp

section \<open>The package build task\<close>

text \<open>
  Claim C9. The package build task is the series of exactly these eight steps in this
  order: the \<^verbatim>\<open>clean\<close> script on the stats path, the \<^verbatim>\<open>clean:package\<close> script, assets,
  fixtures, scripts, styles, templates, and the copy of \<^verbatim>\<open>**/*.js\<close> from
  \<^verbatim>\<open>govuk-prototype-kit\<close> under the source path to \<^verbatim>\<open>govuk-prototype-kit\<close> under the
  destination path.
\<close>

theorem package_steps_in_order:
  "package paths_stats path_join options = gulp_series (steps (package paths_stats path_join options))
   \<and> steps (package paths_stats path_join options) =
       [npm_script ''clean'' [] (BasePathOnly paths_stats),
        npm_script ''clean:package'' [] (TaskOptionsOf options),
        assets options,
        fixtures options,
        scripts options,
        styles options,
        templates options,
        task_name (''copy:files '' @ [CHR 0x27] @ ''govuk-prototype-kit'' @ [CHR 0x27])
          (files_copy ''**/*.js''
             (path_join (srcPath options) ''govuk-prototype-kit'')
             (path_join (destPath options) ''govuk-prototype-kit''))]"
  by (simp add: package_def)

section \<open>Creating or updating\<close>

text \<open>
  Claim C10. The choice between creating and updating tests the recorded id for
  truthiness: when the only comment of the listing that contains the marker has the
  id 0, \<^verbatim>\<open>comment\<close> creates a new comment with the composed body. This holds for the
  \<^verbatim>\<open>comment\<close> of \<^verbatim>\<open>comments.mjs\<close> and for the one of the earlier script.
\<close>

theorem comment_creates_when_only_match_has_id_zero:
  assumes listing: "paginate_listComments (github gac) (issueParameters_of gac issueNumber) w = (Inr pages, w1)"
    and zero: "id_comment x = 0"
  shows "(filter (matcher (comment_marker (markerText c))) (concat pages) = [x] \<longrightarrow>
            comment process gac issueNumber c w =
              createComment (github gac)
                (with_body (issueParameters_of gac issueNumber) (comment_body process gac c)) w1)
       \<and> (filter (matcher (''<!-- '' @ marker_text @ '' -->'' @ LF)) (concat pages) = [x] \<longrightarrow>
            comment_part_000 gac issueNumber marker_text body_arg w =
              createComment (github gac)
                (with_body (issueParameters_of gac issueNumber)
                   ((''<!-- '' @ marker_text @ '' -->'' @ LF) @ body_arg)) w1)"
proof (intro conjI impI)
  assume "filter (matcher (comment_marker (markerText c))) (concat pages) = [x]"
  then have "findCommentId (comment_marker (markerText c)) pages None = Some 0"
    using zero by (simp add: findCommentId_unique)
  then show "comment process gac issueNumber c w =
      createComment (github gac)
        (with_body (issueParameters_of gac issueNumber) (comment_body process gac c)) w1"
    by (simp add: comment_after_listing [OF listing])
next
  assume "filter (matcher (''<!-- '' @ marker_text @ '' -->'' @ LF)) (concat pages) = [x]"
  then have "findCommentId (''<!-- '' @ marker_text @ '' -->'' @ LF) pages None = Some 0"
    using zero by (simp add: findCommentId_unique)
  then show "comment_part_000 gac issueNumber marker_text body_arg w =
      createComment (github gac)
        (with_body (issueParameters_of gac issueNumber)
           ((''<!-- '' @ marker_text @ '' -->'' @ LF) @ body_arg)) w1"
    by (simp add: comment_part_000_after_listing [OF listing])
qed

theorem comment_creates_when_only_match_has_id_zero_witness:
  "comments_of
     (snd (comment sample_process sample_context 5
             \<lparr>titleText = ''T'', markerText = ''m'', bodyText = ''B''\<rparr>
             (sample_world [\<lparr>id_comment = 0, body_comment = Some (''<!-- m -->'' @ LF @ ''old'')\<rparr>] []))) 5
   = [\<lparr>id_comment = 0, body_comment = Some (''<!-- m -->'' @ LF @ ''old'')\<rparr>,
      \<lparr>id_comment = 100,
       body_comment = Some (comment_body sample_process sample_context
                              \<lparr>titleText = ''T'', markerText = ''m'', bodyText = ''B''\<rparr>)\<rparr>]
   \<and> comments_of
     (snd (comment_part_000 sample_context 5 ''m'' ''B''
             (sample_world [\<lparr>id_comment = 0, body_comment = Some (''<!-- m -->'' @ LF @ ''old'')\<rparr>] []))) 5
   = [\<lparr>id_comment = 0, body_comment = Some (''<!-- m -->'' @ LF @ ''old'')\<rparr>,
      \<lparr>id_comment = 100, body_comment = Some (''<!-- m -->'' @ LF @ ''B'')\<rparr>]"
proof -
  let ?x = "\<lparr>id_comment = 0, body_comment = Some (''<!-- m -->'' @ LF @ ''old'')\<rparr>"
  let ?w = "sample_world [?x] []"
  have listing: "paginate_listComments (github sample_context) (issueParameters_of sample_context 5) ?w
      = (Inr [[?x]], ?w)"
    by (simp add: sample_defs world_defs issueParameters_of_def)
  have zero: "id_comment ?x = 0"
    by simp
  have only: "filter (matcher (comment_marker (markerText \<lparr>titleText = ''T'', markerText = ''m'', bodyText = ''B''\<rparr>)))
      (concat [[?x]]) = [?x]"
    by (simp add: matcher_def comment_marker_def LF_def)
  have only_000: "filter (matcher (''<!-- '' @ ''m'' @ '' -->'' @ LF)) (concat [[?x]]) = [?x]"
    by (simp add: matcher_def LF_def)
  from comment_creates_when_only_match_has_id_zero [OF listing zero,
      of "\<lparr>titleText = ''T'', markerText = ''m'', bodyText = ''B''\<rparr>" sample_process "''m''" "''B''"]
    only only_000
  show ?thesis
    by (simp add: sample_defs world_defs issueParameters_of_def with_body_def LF_def)
qed

text \<open>
  Claim C2, as amended. Every page of the listing is scanned: the scan of a sequence of
  pages goes on over the later pages from what the earlier ones recorded, and the id
  it ends with is the one of the specification, taken from the last page that contains
  a match. After the listing, \<^verbatim>\<open>comment\<close> creates a comment with the composed body when
  no id was recorded or the recorded id is 0, and otherwise updates the comment with
  the recorded id with the composed body. The same holds for the earlier script.
\<close>

theorem comment_records_last_matching_page_then_creates_unless_truthy:
  assumes listing: "paginate_listComments (github gac) (issueParameters_of gac issueNumber) w = (Inr pages, w1)"
  shows "findCommentId (comment_marker (markerText c)) pages None
           = recorded_id_spec (comment_marker (markerText c)) pages
       \<and> (\<forall>before after. pages = before @ after \<longrightarrow>
            findCommentId (comment_marker (markerText c)) pages None
              = findCommentId (comment_marker (markerText c)) after
                  (findCommentId (comment_marker (markerText c)) before None))
       \<and> comment process gac issueNumber c w =
           (case recorded_id_spec (comment_marker (markerText c)) pages of
              None \<Rightarrow> createComment (github gac)
                        (with_body (issueParameters_of gac issueNumber) (comment_body process gac c)) w1
            | Some i \<Rightarrow>
                if i = 0
                then createComment (github gac)
                       (with_body (issueParameters_of gac issueNumber) (comment_body process gac c)) w1
                else updateComment (github gac)
                       (with_body_comment_id (issueParameters_of gac issueNumber)
                          (comment_body process gac c) i) w1)
       \<and> comment_part_000 gac issueNumber marker_text body_arg w =
           (case recorded_id_spec (''<!-- '' @ marker_text @ '' -->'' @ LF) pages of
              None \<Rightarrow> createComment (github gac)
                        (with_body (issueParameters_of gac issueNumber)
                           ((''<!-- '' @ marker_text @ '' -->'' @ LF) @ body_arg)) w1
            | Some i \<Rightarrow>
                if i = 0
                then createComment (github gac)
                       (with_body (issueParameters_of gac issueNumber)
                          ((''<!-- '' @ marker_text @ '' -->'' @ LF) @ body_arg)) w1
                else updateComment (github gac)
                       (with_body_comment_id (issueParameters_of gac issueNumber)
                          ((''<!-- '' @ marker_text @ '' -->'' @ LF) @ body_arg) i) w1)"
proof -
  have spec: "\<And>marker. findCommentId marker pages None = recorded_id_spec marker pages"
    by (simp add: findCommentId_recorded_id_spec split: option.splits)
  have cont: "\<forall>before after. pages = before @ after \<longrightarrow>
      findCommentId (comment_marker (markerText c)) pages None
        = findCommentId (comment_marker (markerText c)) after
            (findCommentId (comment_marker (markerText c)) before None)"
    by (simp add: findCommentId_append)
  have new: "comment process gac issueNumber c w =
           (case recorded_id_spec (comment_marker (markerText c)) pages of
              None \<Rightarrow> createComment (github gac)
                        (with_body (issueParameters_of gac issueNumber) (comment_body process gac c)) w1
            | Some i \<Rightarrow>
                if i = 0
                then createComment (github gac)
                       (with_body (issueParameters_of gac issueNumber) (comment_body process gac c)) w1
                else updateComment (github gac)
                       (with_body_comment_id (issueParameters_of gac issueNumber)
                          (comment_body process gac c) i) w1)"
    by (simp only: comment_after_listing [OF listing] spec)
  have old: "comment_part_000 gac issueNumber marker_text body_arg w =
           (case recorded_id_spec (''<!-- '' @ marker_text @ '' -->'' @ LF) pages of
              None \<Rightarrow> createComment (github gac)
                        (with_body (issueParameters_of gac issueNumber)
                           ((''<!-- '' @ marker_text @ '' -->'' @ LF) @ body_arg)) w1
            | Some i \<Rightarrow>
                if i = 0
                then createComment (github gac)
                       (with_body (issueParameters_of gac issueNumber)
                          ((''<!-- '' @ marker_text @ '' -->'' @ LF) @ body_arg)) w1
                else updateComment (github gac)
                       (with_body_comment_id (issueParameters_of gac issueNumber)
                          ((''<!-- '' @ marker_text @ '' -->'' @ LF) @ body_arg) i) w1)"
    by (simp only: comment_part_000_after_listing [OF listing] spec)
  from spec cont new old show ?thesis by blast
qed

theorem comment_records_last_matching_page_witness:
  "comment sample_process sample_context 5
     \<lparr>titleText = ''T'', markerText = ''m'', bodyText = ''B''\<rparr>
     (sample_world
        [\<lparr>id_comment = 1, body_comment = Some ''<!-- m --> first''\<rparr>,
         \<lparr>id_comment = 2, body_comment = Some ''<!-- m --> second''\<rparr>,
         \<lparr>id_comment = 3, body_comment = None\<rparr>] [])
   = world_updateComment
       (with_body_comment_id (issueParameters_of sample_context 5)
          (comment_body sample_process sample_context
             \<lparr>titleText = ''T'', markerText = ''m'', bodyText = ''B''\<rparr>) 2)
       (sample_world
          [\<lparr>id_comment = 1, body_comment = Some ''<!-- m --> first''\<rparr>,
           \<lparr>id_comment = 2, body_comment = Some ''<!-- m --> second''\<rparr>,
           \<lparr>id_comment = 3, body_comment = None\<rparr>] [])"
proof -
  let ?cs = "[\<lparr>id_comment = 1, body_comment = Some ''<!-- m --> first''\<rparr>,
         \<lparr>id_comment = 2, body_comment = Some ''<!-- m --> second''\<rparr>,
         \<lparr>id_comment = 3, body_comment = None\<rparr>]"
  have listing: "paginate_listComments (github sample_context) (issueParameters_of sample_context 5)
      (sample_world ?cs []) = (Inr (map (\<lambda>c. [c]) ?cs), sample_world ?cs [])"
    by (simp add: sample_defs world_defs issueParameters_of_def)
  have spec: "recorded_id_spec (comment_marker (markerText \<lparr>titleText = ''T'', markerText = ''m'', bodyText = ''B''\<rparr>))
      (map (\<lambda>c. [c]) ?cs) = Some 2"
    by (simp add: recorded_id_spec_def matcher_def comment_marker_def)
  from comment_records_last_matching_page_then_creates_unless_truthy [OF listing,
      of "\<lparr>titleText = ''T'', markerText = ''m'', bodyText = ''B''\<rparr>" sample_process] spec
  show ?thesis
    by (simp add: sample_defs world_defs)
qed

text \<open>
  Against claim C2 as it is written (a comment is created exactly when no id was
  recorded): the listing of issue 5 holds one comment, with the id 0 and the marker.
  The loop records the id 0, and \<^verbatim>\<open>comment\<close> creates the comment 100 and leaves the
  comment 0 as it was.
\<close>

theorem comment_creates_although_id_recorded:
  "findCommentId (comment_marker ''m'') [[\<lparr>id_comment = 0, body_comment = Some ''<!-- m -->''\<rparr>]] None = Some 0
   \<and> comments_of
       (snd (comment sample_process sample_context 5
               \<lparr>titleText = ''T'', markerText = ''m'', bodyText = ''B''\<rparr>
               (sample_world [\<lparr>id_comment = 0, body_comment = Some ''<!-- m -->''\<rparr>] []))) 5
     = [\<lparr>id_comment = 0, body_comment = Some ''<!-- m -->''\<rparr>,
        \<lparr>id_comment = 100,
         body_comment = Some (comment_body sample_process sample_context
                                \<lparr>titleText = ''T'', markerText = ''m'', bodyText = ''B''\<rparr>)\<rparr>]"
  by (simp add: comment_defs world_defs sample_defs)

section \<open>Comments that share a marker\<close>

text \<open>
  Claim C3 says that among several comments with the marker the first one met during
  the listing is the one updated. On two pages that each hold a comment with the
  marker, the loop records the id of the second page: comment 2 receives the new body
  and comment 1, the first one met, keeps its own.
\<close>

theorem comment_updates_match_on_last_page:
  "findCommentId (comment_marker ''m'')
     [[\<lparr>id_comment = 1, body_comment = Some ''<!-- m --> first''\<rparr>],
      [\<lparr>id_comment = 2, body_comment = Some ''<!-- m --> second''\<rparr>]] None = Some 2
   \<and> comments_of
       (snd (comment sample_process sample_context 5
               \<lparr>titleText = ''T'', markerText = ''m'', bodyText = ''B''\<rparr>
               (sample_world
                  [\<lparr>id_comment = 1, body_comment = Some ''<!-- m --> first''\<rparr>,
                   \<lparr>id_comment = 2, body_comment = Some ''<!-- m --> second''\<rparr>] []))) 5
     = [\<lparr>id_comment = 1, body_comment = Some ''<!-- m --> first''\<rparr>,
        \<lparr>id_comment = 2,
         body_comment = Some (comment_body sample_process sample_context
                                \<lparr>titleText = ''T'', markerText = ''m'', bodyText = ''B''\<rparr>)\<rparr>]"
  by (simp add: comment_defs world_defs sample_defs)

section \<open>Where the marker is looked for\<close>

lemma prefix_marker_comment_body:
  "prefix (comment_marker (markerText c)) (comment_body process gac c)"
  by (simp add: comment_body_def)

text \<open>
  Claim C6, as amended. A comment is matched exactly when it has a body and the marker
  token occurs in the body, at any position; every body that \<^verbatim>\<open>comment\<close> composes
  starts with the marker token; and when the listing holds exactly one matched
  comment, whose id is not 0, \<^verbatim>\<open>comment\<close> updates that comment.
\<close>

theorem matcher_accepts_marker_anywhere:
  "(matcher marker x \<longleftrightarrow> (\<exists>b. body_comment x = Some b \<and> sublist marker b))
   \<and> prefix (comment_marker (markerText c)) (comment_body process gac c)
   \<and> (paginate_listComments (github gac) (issueParameters_of gac issueNumber) w = (Inr pages, w1)
        \<and> filter (matcher (comment_marker (markerText c))) (concat pages) = [x]
        \<and> id_comment x \<noteq> 0 \<longrightarrow>
      comment process gac issueNumber c w =
        updateComment (github gac)
          (with_body_comment_id (issueParameters_of gac issueNumber)
             (comment_body process gac c) (id_comment x)) w1)"
proof (intro conjI impI)
  show "matcher marker x \<longleftrightarrow> (\<exists>b. body_comment x = Some b \<and> sublist marker b)"
    by (cases "body_comment x") (simp_all add: matcher_def includes_str_sublist)
  show "prefix (comment_marker (markerText c)) (comment_body process gac c)"
    by (rule prefix_marker_comment_body)
next
  assume h: "paginate_listComments (github gac) (issueParameters_of gac issueNumber) w = (Inr pages, w1)
        \<and> filter (matcher (comment_marker (markerText c))) (concat pages) = [x]
        \<and> id_comment x \<noteq> 0"
  then have "findCommentId (comment_marker (markerText c)) pages None = Some (id_comment x)"
    by (simp add: findCommentId_unique)
  with h show "comment process gac issueNumber c w =
        updateComment (github gac)
          (with_body_comment_id (issueParameters_of gac issueNumber)
             (comment_body process gac c) (id_comment x)) w1"
    by (simp add: comment_after_listing)
qed

theorem matcher_accepts_marker_anywhere_witness:
  "matcher (comment_marker ''m'') \<lparr>id_comment = 4, body_comment = Some ''see <!-- m --> above''\<rparr>
   \<and> comment sample_process sample_context 5
       \<lparr>titleText = ''T'', markerText = ''m'', bodyText = ''B''\<rparr>
       (sample_world [\<lparr>id_comment = 4, body_comment = Some ''see <!-- m --> above''\<rparr>] [])
     = world_updateComment
         (with_body_comment_id (issueParameters_of sample_context 5)
            (comment_body sample_process sample_context
               \<lparr>titleText = ''T'', markerText = ''m'', bodyText = ''B''\<rparr>) 4)
         (sample_world [\<lparr>id_comment = 4, body_comment = Some ''see <!-- m --> above''\<rparr>] [])"
proof -
  let ?x = "\<lparr>id_comment = 4, body_comment = Some ''see <!-- m --> above''\<rparr>"
  let ?c = "\<lparr>titleText = ''T'', markerText = ''m'', bodyText = ''B''\<rparr>"
  have listing: "paginate_listComments (github sample_context) (issueParameters_of sample_context 5)
      (sample_world [?x] []) = (Inr [[?x]], sample_world [?x] [])"
    by (simp add: sample_defs world_defs issueParameters_of_def)
  have m: "matcher (comment_marker ''m'') ?x"
    by (simp add: matcher_def comment_marker_def)
  then have only: "filter (matcher (comment_marker (markerText ?c))) (concat [[?x]]) = [?x]"
    by simp
  have nz: "id_comment ?x \<noteq> 0"
    by simp
  from matcher_accepts_marker_anywhere [where marker = "comment_marker ''m''" and x = ?x and c = ?c
      and process = sample_process and gac = sample_context and issueNumber = 5
      and w = "sample_world [?x] []" and pages = "[[?x]]" and ?w1.0 = "sample_world [?x] []"]
    listing only nz m
  show ?thesis
    by (simp add: sample_defs world_defs)
qed

text \<open>
  Against claim C6 as it is written (a comment is recognised only if the marker token
  is at the start of its body): the body of comment 9 has the token after the word
  \<^verbatim>\<open>note\<close>, and \<^verbatim>\<open>comment\<close> updates comment 9.
\<close>

theorem comment_updates_comment_with_marker_inside:
  "\<not> prefix (comment_marker ''m'') ''note <!-- m -->''
   \<and> comments_of
       (snd (comment sample_process sample_context 5
               \<lparr>titleText = ''T'', markerText = ''m'', bodyText = ''B''\<rparr>
               (sample_world [\<lparr>id_comment = 9, body_comment = Some ''note <!-- m -->''\<rparr>] []))) 5
     = [\<lparr>id_comment = 9,
         body_comment = Some (comment_body sample_process sample_context
                                \<lparr>titleText = ''T'', markerText = ''m'', bodyText = ''B''\<rparr>)\<rparr>]"
  by (simp add: comment_defs world_defs sample_defs)

section \<open>Posting a diff\<close>

lemma commentDiff_after_read:
  assumes "readFile process (path d) w = (Inr contents, w1)"
  shows "commentDiff process gac issueNumber d w =
     (case comment process gac issueNumber
             \<lparr>titleText = titleText d, markerText = markerText d,
              bodyText = ''```diff'' @ LF @ (if contents = [] then ''No changes found.'' else contents) @ LF @ ''```''\<rparr> w1 of
        (Inr u, w2) \<Rightarrow> (Inr u, w2)
      | (Inl e, w2) \<Rightarrow>
          comment process gac issueNumber
            \<lparr>titleText = titleText d, markerText = markerText d,
             bodyText =
               ''The diff could not be posted as a comment. You can download it from the [workflow artifacts](''
                 @ githubActionRunUrl process (context_of gac) @ ''#artifacts).''\<rparr> w2)"
  using assms by (simp add: commentDiff_def Let_def)

text \<open>
  Claim C4, as amended. When the read of the diff file is rejected, \<^verbatim>\<open>commentDiff\<close> is
  rejected with that failure and nothing is posted. When the read succeeds and the
  posting of the diff through \<^verbatim>\<open>comment\<close> is rejected, for whatever reason,
  \<^verbatim>\<open>commentDiff\<close> drops that failure and posts through \<^verbatim>\<open>comment\<close>, with the same
  title and marker, a text that does not depend on the contents of the file and links
  to the run's URL followed by \<^verbatim>\<open>#artifacts\<close>.
\<close>

theorem commentDiff_falls_back_when_post_fails:
  "(readFile process (path d) w = (Inl e, w1) \<longrightarrow>
      commentDiff process gac issueNumber d w = (Inl e, w1))
   \<and> (readFile process (path d) w = (Inr contents, w1)
        \<and> comment process gac issueNumber
             \<lparr>titleText = titleText d, markerText = markerText d,
              bodyText = ''```diff'' @ LF @ (if contents = [] then ''No changes found.'' else contents) @ LF @ ''```''\<rparr> w1
            = (Inl e, w2) \<longrightarrow>
      commentDiff process gac issueNumber d w =
        comment process gac issueNumber
          \<lparr>titleText = titleText d, markerText = markerText d,
           bodyText =
             ''The diff could not be posted as a comment. You can download it from the [workflow artifacts](''
               @ githubActionRunUrl process (context_of gac) @ ''#artifacts).''\<rparr> w2)"
proof (intro conjI impI)
  assume "readFile process (path d) w = (Inl e, w1)"
  then show "commentDiff process gac issueNumber d w = (Inl e, w1)"
    by (simp add: commentDiff_def)
next
  assume h: "readFile process (path d) w = (Inr contents, w1)
        \<and> comment process gac issueNumber
             \<lparr>titleText = titleText d, markerText = markerText d,
              bodyText = ''```diff'' @ LF @ (if contents = [] then ''No changes found.'' else contents) @ LF @ ''```''\<rparr> w1
            = (Inl e, w2)"
  then have "readFile process (path d) w = (Inr contents, w1)" by simp
  from commentDiff_after_read [OF this] h
  show "commentDiff process gac issueNumber d w =
        comment process gac issueNumber
          \<lparr>titleText = titleText d, markerText = markerText d,
           bodyText =
             ''The diff could not be posted as a comment. You can download it from the [workflow artifacts](''
               @ githubActionRunUrl process (context_of gac) @ ''#artifacts).''\<rparr> w2"
    by simp
qed

theorem commentDiff_falls_back_witness:
  "commentDiff sample_process sample_context 5
     \<lparr>titleText = ''T'', markerText = ''m'', path = ''missing.diff''\<rparr> (sample_world [] [True])
   = (Inl (Thrown ''ENOENT''), sample_world [] [True])
   \<and> comments_of
       (snd (commentDiff sample_process sample_context 5
               \<lparr>titleText = ''T'', markerText = ''m'', path = ''b.diff''\<rparr> (sample_world [] [True]))) 5
     = [\<lparr>id_comment = 100,
         body_comment =
           Some (''<!-- m -->'' @ LF @ ''## T'' @ LF
                 @ ''The diff could not be posted as a comment. You can download it from the [workflow artifacts](https://github.com/alphagov/govuk-frontend/actions/runs/7/attempts/1#artifacts).''
                 @ LF @ LF @ ''---'' @ LF
                 @ ''[Action run](https://github.com/alphagov/govuk-frontend/actions/runs/7/attempts/1) for abc'')\<rparr>]"
proof -
  let ?w = "sample_world [] [True]"
  let ?missing = "\<lparr>titleText = ''T'', markerText = ''m'', path = ''missing.diff''\<rparr>"
  let ?d = "\<lparr>titleText = ''T'', markerText = ''m'', path = ''b.diff''\<rparr>"
  have no_file: "readFile sample_process (path ?missing) ?w = (Inl (Thrown ''ENOENT''), ?w)"
    by (simp add: world_defs sample_defs)
  have read: "readFile sample_process (path ?d) ?w = (Inr ''+x'', ?w)"
    by (simp add: world_defs sample_defs)
  have post: "comment sample_process sample_context 5
      \<lparr>titleText = titleText ?d, markerText = markerText ?d,
       bodyText = ''```diff'' @ LF @ (if ''+x'' = [] then ''No changes found.'' else ''+x'') @ LF @ ''```''\<rparr> ?w
      = (Inl (Thrown ''HttpError''), ?w\<lparr>failures := []\<rparr>)"
    by (simp add: comment_defs world_defs sample_defs)
  from commentDiff_falls_back_when_post_fails [where process = sample_process and d = "?missing"
      and w = "?w" and e = "Thrown ''ENOENT''" and ?w1.0 = "?w" and gac = sample_context and issueNumber = 5]
    no_file
  have first: "commentDiff sample_process sample_context 5 ?missing ?w = (Inl (Thrown ''ENOENT''), ?w)"
    by blast
  from commentDiff_falls_back_when_post_fails [where process = sample_process and d = "?d"
      and w = "?w" and e = "Thrown ''HttpError''" and ?w1.0 = "?w" and contents = "''+x''"
      and ?w2.0 = "?w\<lparr>failures := []\<rparr>" and gac = sample_context and issueNumber = 5]
    read post
  have "commentDiff sample_process sample_context 5 ?d ?w =
      comment sample_process sample_context 5
        \<lparr>titleText = titleText ?d, markerText = markerText ?d,
         bodyText =
           ''The diff could not be posted as a comment. You can download it from the [workflow artifacts](''
             @ githubActionRunUrl sample_process (context_of sample_context) @ ''#artifacts).''\<rparr>
        (?w\<lparr>failures := []\<rparr>)"
    by blast
  then have second: "comments_of (snd (commentDiff sample_process sample_context 5 ?d ?w)) 5
     = [\<lparr>id_comment = 100,
         body_comment =
           Some (''<!-- m -->'' @ LF @ ''## T'' @ LF
                 @ ''The diff could not be posted as a comment. You can download it from the [workflow artifacts](https://github.com/alphagov/govuk-frontend/actions/runs/7/attempts/1#artifacts).''
                 @ LF @ LF @ ''---'' @ LF
                 @ ''[Action run](https://github.com/alphagov/govuk-frontend/actions/runs/7/attempts/1) for abc'')\<rparr>]"
    by (simp add: comment_defs world_defs sample_defs string_of_nat_7)
  from first second show ?thesis by simp
qed

text \<open>
  Against claim C4 as it is written (the fallback is posted also when the read
  throws): the path names no file, and \<^verbatim>\<open>commentDiff\<close> is rejected with the failure of
  the read and leaves the world, with no comment on issue 5, as it was.
\<close>

theorem commentDiff_read_failure_posts_nothing:
  "commentDiff sample_process sample_context 5
     \<lparr>titleText = ''T'', markerText = ''m'', path = ''missing.diff''\<rparr> (sample_world [] [])
   = (Inl (Thrown ''ENOENT''), sample_world [] [])
   \<and> comments_of (sample_world [] []) 5 = []"
  by (simp add: commentDiff_def world_defs sample_defs)

section \<open>Posting several diffs\<close>

lemma run_alone_await:
  "run_alone (await p continue) w =
     (case run_alone p w of
        (Inl e, w1) \<Rightarrow> (Inl e, w1)
      | (Inr v, w1) \<Rightarrow> run_alone (continue v) w1)"
  by (induction p arbitrary: w) (auto split: sum.splits)

lemma run_alone_try_catch:
  "run_alone (try_catch p handler) w =
     (case run_alone p w of
        (Inl e, w1) \<Rightarrow> run_alone (handler e) w1
      | (Inr v, w1) \<Rightarrow> (Inr v, w1))"
  by (induction p arbitrary: w) (auto split: sum.splits)

lemma run_alone_one_call: "run_alone (one_call f) = f"
  by (rule ext) (simp add: one_call_def)

text \<open>
  Awaited with nothing else running, the promises of \<^verbatim>\<open>comment\<close> and \<^verbatim>\<open>commentDiff\<close>
  do what the functions of the same name do, on a client whose calls are these
  promises awaited alone.
\<close>

lemma run_alone_comment_async:
  assumes "\<And>ip. paginate_listComments (github gac) ip = run_alone (paginate_call calls ip)"
    and "\<And>cp. createComment (github gac) cp = run_alone (createComment_call calls cp)"
    and "\<And>up. updateComment (github gac) up = run_alone (updateComment_call calls up)"
  shows "run_alone (comment_async calls process gac issueNumber c) w = comment process gac issueNumber c w"
  using assms
  by (simp add: comment_async_def comment_def Let_def run_alone_await split: prod.splits sum.splits)

lemma run_alone_commentDiff_async:
  assumes "\<And>p. readFile process p = run_alone (readFile_call calls p)"
    and "\<And>ip. paginate_listComments (github gac) ip = run_alone (paginate_call calls ip)"
    and "\<And>cp. createComment (github gac) cp = run_alone (createComment_call calls cp)"
    and "\<And>up. updateComment (github gac) up = run_alone (updateComment_call calls up)"
  shows "run_alone (commentDiff_async calls process gac issueNumber d) w = commentDiff process gac issueNumber d w"
  using assms(1) run_alone_comment_async [OF assms(2,3,4)]
  by (simp add: commentDiff_async_def commentDiff_def Let_def run_alone_await run_alone_try_catch
      split: prod.splits sum.splits)

lemma run_alone_commentDiff_async_world:
  "run_alone (commentDiff_async world_calls (world_process a) (world_context ctx sha) n d) w
     = commentDiff (world_process a) (world_context ctx sha) n d w"
  by (rule run_alone_commentDiff_async)
    (simp_all add: world_calls_def world_process_def world_context_def world_github_def
      run_alone_one_call)

text \<open>Schedules: lengths, the promises not scheduled, and running to the end.\<close>

lemma run_schedule_Nil [simp]: "run_schedule [] state = state"
  by (simp add: run_schedule_def)

lemma run_schedule_Cons [simp]:
  "run_schedule (i # schedule) state = run_schedule schedule (settle_next i state)"
  by (simp add: run_schedule_def)




lemma settle_next_other:
  "j \<noteq> i \<Longrightarrow> fst (settle_next i (ps, w)) ! j = ps ! j"
  by (simp split: promise.splits)













text \<open>
  The order of completion matters to what \<^verbatim>\<open>commentDiffs\<close> returns. Here two diffs are
  posted and the first two creating calls are rejected. When the operations of the two
  reports alternate, each report has its diff rejected and its fallback accepted, and
  \<^verbatim>\<open>commentDiffs\<close> returns. When the first report ends before the second starts, its
  diff and its fallback are both rejected, and \<^verbatim>\<open>commentDiffs\<close> throws.
\<close>

lemma commentDiffs_result_depends_on_schedule:
  "fst (commentDiffs world_calls sample_process sample_context 5
          [\<lparr>titleText = ''A'', markerText = ''a'', path = ''a.diff''\<rparr>,
           \<lparr>titleText = ''B'', markerText = ''b'', path = ''b.diff''\<rparr>]
          [0, 1, 0, 1, 0, 1, 0, 1, 0, 1]
          (sample_world [] [True, True]))
     = Some (Inr ())
   \<and> fst (commentDiffs world_calls sample_process sample_context 5
          [\<lparr>titleText = ''A'', markerText = ''a'', path = ''a.diff''\<rparr>,
           \<lparr>titleText = ''B'', markerText = ''b'', path = ''b.diff''\<rparr>]
          [0, 0, 0, 0, 0, 1, 1, 1]
          (sample_world [] [True, True]))
     = Some (Inl (Error ''Posting diff comment failed''
                    (Some [rejected (Thrown ''HttpError''), fulfilled])))"
  by (simp add: commentDiffs_def allSettled_def commentDiff_async_def comment_async_def
      world_calls_def one_call_def comment_defs world_defs sample_defs string_of_nat_7
      eval_nat_numeral)

section \<open>The scripts on the model of the collaborators\<close>

lemma set_concat_chunk: "set (concat (chunk n xs)) \<subseteq> set xs"
proof (cases "n = 0")
  case True
  then show ?thesis by (subst chunk.simps) simp
next
  case False
  then show ?thesis by (simp add: concat_chunk)
qed

lemma world_paginate:
  "paginate_listComments (github (world_context ctx sha)) (issueParameters_of (world_context ctx sha) n) w
     = (Inr (chunk (per_page w) (comments_of w n)), w)"
  by (simp add: world_context_def world_github_def world_listComments_def issueParameters_of_def)

lemma world_github_calls:
  "createComment (github (world_context ctx sha)) = world_createComment"
  "updateComment (github (world_context ctx sha)) = world_updateComment"
  by (simp_all add: world_context_def world_github_def)

lemma with_body_fields [simp]:
  "issue_number (with_body ip b) = issue_number ip"
  "body (with_body ip b) = b"
  "issue_number (with_body_comment_id ip b k) = issue_number ip"
  "body (with_body_comment_id ip b k) = b"
  "comment_id (with_body_comment_id ip b k) = k"
  "issue_number (issueParameters_of gac n) = n"
  by (simp_all add: with_body_def with_body_comment_id_def issueParameters_of_def)

lemma world_comment_creates:
  assumes "failures w = []"
    and "findCommentId (comment_marker (markerText c)) (chunk (per_page w) (comments_of w n)) None = None
         \<or> findCommentId (comment_marker (markerText c)) (chunk (per_page w) (comments_of w n)) None = Some 0"
  shows "comment (world_process a) (world_context ctx sha) n c w =
     (Inr (),
      w\<lparr>comments_of := (comments_of w)
           (n := comments_of w n
              @ [\<lparr>id_comment = next_id w,
                  body_comment = Some (comment_body (world_process a) (world_context ctx sha) c)\<rparr>]),
        next_id := next_id w + 1,
        failures := []\<rparr>)"
proof -
  note step = comment_after_listing [OF world_paginate]
  from assms show ?thesis
    by (auto simp: step world_github_calls world_createComment_def)
qed

lemma world_comment_updates:
  assumes "failures w = []"
    and "findCommentId (comment_marker (markerText c)) (chunk (per_page w) (comments_of w n)) None = Some k"
    and "k \<noteq> 0"
  shows "comment (world_process a) (world_context ctx sha) n c w =
     (Inr (),
      w\<lparr>comments_of := (comments_of w)
           (n := map (\<lambda>x. if id_comment x = k
                           then x\<lparr>body_comment := Some (comment_body (world_process a) (world_context ctx sha) c)\<rparr>
                           else x)
                   (comments_of w n)),
        failures := []\<rparr>)"
proof -
  from findCommentId_found [OF assms(2)]
  obtain x where "x \<in> set (concat (chunk (per_page w) (comments_of w n)))" "id_comment x = k"
    by auto
  with set_concat_chunk [of "per_page w" "comments_of w n"]
  have "list_ex (\<lambda>x. id_comment x = k) (comments_of w n)"
    by (auto simp: list_ex_iff)
  moreover note step = comment_after_listing [OF world_paginate]
  ultimately show ?thesis using assms
    by (simp add: step world_github_calls world_updateComment_def cong: if_cong)
qed

lemma world_comment_posts:
  assumes "failures w = []"
  shows "\<exists>w'. comment (world_process a) (world_context ctx sha) n c w = (Inr (), w')
     \<and> (\<exists>x \<in> set (comments_of w' n).
           body_comment x = Some (comment_body (world_process a) (world_context ctx sha) c))"
proof (cases "findCommentId (comment_marker (markerText c)) (chunk (per_page w) (comments_of w n)) None")
  case None
  with world_comment_creates [OF assms, of c n a ctx sha] show ?thesis by simp
next
  case (Some k)
  show ?thesis
  proof (cases "k = 0")
    case True
    with Some world_comment_creates [OF assms, of c n a ctx sha] show ?thesis by simp
  next
    case False
    from findCommentId_found [OF Some]
    obtain x where "x \<in> set (concat (chunk (per_page w) (comments_of w n)))" "id_comment x = k"
      by auto
    with set_concat_chunk [of "per_page w" "comments_of w n"]
    have "x \<in> set (comments_of w n)" by auto
    with \<open>id_comment x = k\<close>
    have "x\<lparr>body_comment := Some (comment_body (world_process a) (world_context ctx sha) c)\<rparr>
        \<in> set (map (\<lambda>x. if id_comment x = k
                           then x\<lparr>body_comment := Some (comment_body (world_process a) (world_context ctx sha) c)\<rparr>
                           else x)
                   (comments_of w n))"
      by force
    with world_comment_updates [OF assms Some False, of a ctx sha] show ?thesis
      by (intro exI [of _ "w\<lparr>comments_of := (comments_of w)
           (n := map (\<lambda>x. if id_comment x = k
                           then x\<lparr>body_comment := Some (comment_body (world_process a) (world_context ctx sha) c)\<rparr>
                           else x)
                   (comments_of w n)),
        failures := []\<rparr>"] conjI
          bexI [of _ "x\<lparr>body_comment := Some (comment_body (world_process a) (world_context ctx sha) c)\<rparr>"])
        simp_all
  qed
qed

text \<open>
  Claim C7. The diff that \<^verbatim>\<open>commentDiff\<close> posts is the fenced diff block holding the
  line \<^verbatim>\<open>No changes found.\<close> when the file reads as the empty string, and holding the
  contents of the file unchanged otherwise: with any client, when \<^verbatim>\<open>comment\<close> succeeds
  on that block, \<^verbatim>\<open>commentDiff\<close> ends as that call does; and on the model of the
  collaborators, when the calls to GitHub succeed, \<^verbatim>\<open>commentDiff\<close> succeeds and leaves
  on the issue a comment whose body has that block between the title line and the
  separator.
\<close>

theorem commentDiff_posts_placeholder_or_contents:
  "(readFile process (path d) w0 = (Inr contents, w1)
      \<and> comment process gac n
            \<lparr>titleText = titleText d, markerText = markerText d,
             bodyText = (if contents = []
                         then ''```diff'' @ LF @ ''No changes found.'' @ LF @ ''```''
                         else ''```diff'' @ LF @ contents @ LF @ ''```'')\<rparr> w1
          = (Inr u, w2) \<longrightarrow>
    commentDiff process gac n d w0 = (Inr u, w2))
   \<and> (files_of w (path d) = Some contents \<and> failures w = [] \<longrightarrow>
    (\<exists>w'. commentDiff (world_process a) (world_context ctx sha) n d w = (Inr (), w')
     \<and> (\<exists>x \<in> set (comments_of w' n).
           body_comment x =
             Some (comment_marker (markerText d) @ LF
                   @ ''## '' @ titleText d @ LF
                   @ (if contents = []
                      then ''```diff'' @ LF @ ''No changes found.'' @ LF @ ''```''
                      else ''```diff'' @ LF @ contents @ LF @ ''```'') @ LF
                   @ LF @ ''---'' @ LF
                   @ renderCommentFooter (world_process a) (context_of (world_context ctx sha))
                       (commit (world_context ctx sha))))))"
proof (intro conjI impI)
  assume h: "readFile process (path d) w0 = (Inr contents, w1)
      \<and> comment process gac n
            \<lparr>titleText = titleText d, markerText = markerText d,
             bodyText = (if contents = []
                         then ''```diff'' @ LF @ ''No changes found.'' @ LF @ ''```''
                         else ''```diff'' @ LF @ contents @ LF @ ''```'')\<rparr> w1
          = (Inr u, w2)"
  then have read: "readFile process (path d) w0 = (Inr contents, w1)"
    by simp
  have same: "(if contents = []
       then ''```diff'' @ LF @ ''No changes found.'' @ LF @ ''```''
       else ''```diff'' @ LF @ contents @ LF @ ''```'')
      = ''```diff'' @ LF @ (if contents = [] then ''No changes found.'' else contents) @ LF @ ''```''"
    by simp
  from h show "commentDiff process gac n d w0 = (Inr u, w2)"
    unfolding commentDiff_after_read [OF read] same by simp
next
  assume h: "files_of w (path d) = Some contents \<and> failures w = []"
  let ?c = "\<lparr>titleText = titleText d, markerText = markerText d,
      bodyText = ''```diff'' @ LF @ (if contents = [] then ''No changes found.'' else contents) @ LF @ ''```''\<rparr>"
  have read: "readFile (world_process a) (path d) w = (Inr contents, w)"
    using h by (simp add: world_process_def world_readFile_def)
  from h have calls_succeed: "failures w = []"
    by simp
  from world_comment_posts [OF calls_succeed, of a ctx sha n ?c]
  obtain w' where post: "comment (world_process a) (world_context ctx sha) n ?c w = (Inr (), w')"
    and posted: "\<exists>x \<in> set (comments_of w' n).
           body_comment x = Some (comment_body (world_process a) (world_context ctx sha) ?c)"
    by blast
  have "commentDiff (world_process a) (world_context ctx sha) n d w = (Inr (), w')"
    using commentDiff_after_read [OF read, of "world_context ctx sha" n] post by simp
  moreover have "comment_body (world_process a) (world_context ctx sha) ?c =
      comment_marker (markerText d) @ LF
                   @ ''## '' @ titleText d @ LF
                   @ (if contents = []
                      then ''```diff'' @ LF @ ''No changes found.'' @ LF @ ''```''
                      else ''```diff'' @ LF @ contents @ LF @ ''```'') @ LF
                   @ LF @ ''---'' @ LF
                   @ renderCommentFooter (world_process a) (context_of (world_context ctx sha))
                       (commit (world_context ctx sha))"
    by (simp add: comment_body_def)
  ultimately show "\<exists>w'. commentDiff (world_process a) (world_context ctx sha) n d w = (Inr (), w')
     \<and> (\<exists>x \<in> set (comments_of w' n).
           body_comment x =
             Some (comment_marker (markerText d) @ LF
                   @ ''## '' @ titleText d @ LF
                   @ (if contents = []
                      then ''```diff'' @ LF @ ''No changes found.'' @ LF @ ''```''
                      else ''```diff'' @ LF @ contents @ LF @ ''```'') @ LF
                   @ LF @ ''---'' @ LF
                   @ renderCommentFooter (world_process a) (context_of (world_context ctx sha))
                       (commit (world_context ctx sha))))"
    using posted by auto
qed

theorem commentDiff_posts_placeholder_witness:
  "fst (commentDiff sample_process sample_context 5
          \<lparr>titleText = ''T'', markerText = ''m'', path = ''a.diff''\<rparr> (sample_world [] []))
     = Inr ()
   \<and> (\<exists>x \<in> set (comments_of
                    (snd (commentDiff sample_process sample_context 5
                            \<lparr>titleText = ''T'', markerText = ''m'', path = ''a.diff''\<rparr>
                            (sample_world [] []))) 5).
         body_comment x =
           Some (''<!-- m -->'' @ LF @ ''## T'' @ LF
                 @ ''```diff'' @ LF @ ''No changes found.'' @ LF @ ''```'' @ LF
                 @ LF @ ''---'' @ LF
                 @ ''[Action run](https://github.com/alphagov/govuk-frontend/actions/runs/7/attempts/1) for abc''))"
proof -
  let ?d = "\<lparr>titleText = ''T'', markerText = ''m'', path = ''a.diff''\<rparr>"
  let ?w = "sample_world [] []"
  let ?ctx = "\<lparr>repo_of = \<lparr>owner = ''alphagov'', repo = ''govuk-frontend''\<rparr>, runId = 7\<rparr>"
  let ?P = "world_process (Some ''1'')"
  let ?G = "world_context ?ctx ''abc''"
  let ?c = "\<lparr>titleText = titleText ?d, markerText = markerText ?d,
      bodyText = (if [] = ([] :: string)
                  then ''```diff'' @ LF @ ''No changes found.'' @ LF @ ''```''
                  else ''```diff'' @ LF @ [] @ LF @ ''```'')\<rparr>"
  let ?B = "comment_body ?P ?G ?c"
  let ?w2 = "?w\<lparr>comments_of := (comments_of ?w)
        (5 := comments_of ?w 5 @ [\<lparr>id_comment = next_id ?w, body_comment = Some ?B\<rparr>]),
      next_id := next_id ?w + 1, failures := []\<rparr>"
  have readable: "files_of ?w (path ?d) = Some []"
    by (simp add: sample_world_def)
  have calls_succeed: "failures ?w = []"
    by (simp add: sample_world_def)
  have read: "readFile ?P (path ?d) ?w = (Inr [], ?w)"
    by (simp add: sample_world_def world_process_def world_readFile_def)
  have "findCommentId (comment_marker (markerText ?c)) (chunk (per_page ?w) (comments_of ?w 5)) None = None
      \<or> findCommentId (comment_marker (markerText ?c)) (chunk (per_page ?w) (comments_of ?w 5)) None = Some 0"
    by (simp add: sample_world_def)
  from world_comment_creates [OF calls_succeed this, of "Some ''1''" ?ctx "''abc''"]
  have post: "comment ?P ?G 5 ?c ?w = (Inr (), ?w2)" .
  note both = commentDiff_posts_placeholder_or_contents
    [where d = "?d" and w = "?w" and contents = "[]" and a = "Some ''1''" and ctx = "?ctx"
       and sha = "''abc''" and n = 5 and process = "?P" and gac = "?G"
       and ?w0.0 = "?w" and ?w1.0 = "?w" and u = "()" and ?w2.0 = "?w2"]
  from both read post have "commentDiff ?P ?G 5 ?d ?w = (Inr (), ?w2)"
    by blast
  then have first: "fst (commentDiff sample_process sample_context 5 ?d ?w) = Inr ()"
    by (simp add: sample_process_def sample_context_def)
  from both readable calls_succeed
  obtain w' x where "commentDiff ?P ?G 5 ?d ?w = (Inr (), w')" and "x \<in> set (comments_of w' 5)"
    and "body_comment x =
       Some (comment_marker (markerText ?d) @ LF
             @ ''## '' @ titleText ?d @ LF
             @ (if [] = ([] :: string)
                then ''```diff'' @ LF @ ''No changes found.'' @ LF @ ''```''
                else ''```diff'' @ LF @ [] @ LF @ ''```'') @ LF
             @ LF @ ''---'' @ LF
             @ renderCommentFooter ?P (context_of ?G) (commit ?G))"
    by blast
  then have "\<exists>x \<in> set (comments_of (snd (commentDiff sample_process sample_context 5 ?d ?w)) 5).
      body_comment x =
        Some (''<!-- m -->'' @ LF @ ''## T'' @ LF
              @ ''```diff'' @ LF @ ''No changes found.'' @ LF @ ''```'' @ LF
              @ LF @ ''---'' @ LF
              @ ''[Action run](https://github.com/alphagov/govuk-frontend/actions/runs/7/attempts/1) for abc'')"
    by (intro bexI [of _ x])
      (simp_all add: sample_process_def sample_context_def comment_marker_def
        renderCommentFooter_def githubActionRunUrl_def world_context_def world_process_def
        string_of_nat_7)
  with first show ?thesis
    by simp
qed

section \<open>Posting twice with one marker\<close>

lemma matcher_composed_body:
  "markerText c = m \<Longrightarrow>
   matcher (comment_marker m) \<lparr>id_comment = i, body_comment = Some (comment_body process gac c)\<rparr>"
  using prefix_marker_comment_body [of c process gac]
  by (auto simp: matcher_def includes_str_sublist intro: prefix_imp_sublist)

lemma map_update_other_ids:
  "k \<notin> id_comment ` set xs \<Longrightarrow>
   map (\<lambda>x. if id_comment x = k then x\<lparr>body_comment := b\<rparr> else x) xs = xs"
  by (induction xs) auto

lemma ids_after_update:
  "map id_comment (map (\<lambda>x. if id_comment x = k then x\<lparr>body_comment := b\<rparr> else x) xs)
     = map id_comment xs"
  by (induction xs) auto

lemma filter_after_update:
  assumes "distinct (map id_comment xs)"
    and "filter M xs = [x]"
    and "M (x\<lparr>body_comment := b\<rparr>)"
  shows "filter M (map (\<lambda>y. if id_comment y = id_comment x then y\<lparr>body_comment := b\<rparr> else y) xs)
     = [x\<lparr>body_comment := b\<rparr>]"
  using assms
proof (induction xs)
  case Nil
  then show ?case by simp
next
  case (Cons y ys)
  show ?case
  proof (cases "M y")
    case True
    with Cons.prems have yx: "y = x" and rest: "filter M ys = []" by auto
    from Cons.prems yx have "id_comment x \<notin> id_comment ` set ys" by auto
    then have "map (\<lambda>y. if id_comment y = id_comment x then y\<lparr>body_comment := b\<rparr> else y) ys = ys"
      by (rule map_update_other_ids)
    with yx rest Cons.prems show ?thesis by simp
  next
    case False
    with Cons.prems have rest: "filter M ys = [x]" by simp
    then have "x \<in> set (filter M ys)" by simp
    then have "x \<in> set ys" by simp
    with Cons.prems have "id_comment y \<noteq> id_comment x" by auto
    with False rest Cons show ?thesis by simp
  qed
qed

lemma marked_after_update:
  assumes calls: "failures w = []"
    and pages: "0 < per_page w"
    and one: "marked_comments (comment_marker m) n w = [x]"
    and nonzero: "id_comment x \<noteq> 0"
    and ids: "distinct (map id_comment (comments_of w n))"
    and marker: "markerText c = m"
  shows "\<exists>w'. comment (world_process a) (world_context ctx sha) n c w = (Inr (), w')
     \<and> marked_comments (comment_marker m) n w'
         = [x\<lparr>body_comment := Some (comment_body (world_process a) (world_context ctx sha) c)\<rparr>]
     \<and> distinct (map id_comment (comments_of w' n))
     \<and> failures w' = [] \<and> per_page w' = per_page w"
proof -
  let ?B = "comment_body (world_process a) (world_context ctx sha) c"
  let ?w' = "w\<lparr>comments_of := (comments_of w)
           (n := map (\<lambda>y. if id_comment y = id_comment x then y\<lparr>body_comment := Some ?B\<rparr> else y)
                   (comments_of w n)),
        failures := []\<rparr>"
  from one pages have "filter (matcher (comment_marker m)) (concat (chunk (per_page w) (comments_of w n))) = [x]"
    by (simp add: marked_comments_def concat_chunk)
  then have found: "findCommentId (comment_marker (markerText c)) (chunk (per_page w) (comments_of w n)) None
      = Some (id_comment x)"
    using marker by (simp add: findCommentId_unique)
  from world_comment_updates [OF calls found nonzero, of a ctx sha]
  have run: "comment (world_process a) (world_context ctx sha) n c w = (Inr (), ?w')" .
  have "matcher (comment_marker m) (x\<lparr>body_comment := Some ?B\<rparr>)"
    using matcher_composed_body [OF marker, of "id_comment x" "world_process a" "world_context ctx sha"]
    by (simp add: matcher_def)
  with filter_after_update [OF ids, of "matcher (comment_marker m)" x "Some ?B"] one
  have marked: "marked_comments (comment_marker m) n ?w' = [x\<lparr>body_comment := Some ?B\<rparr>]"
    by (simp add: marked_comments_def)
  have "map id_comment (comments_of ?w' n) = map id_comment (comments_of w n)"
    using ids_after_update [of "id_comment x" "Some ?B" "comments_of w n"] by simp
  with ids have "distinct (map id_comment (comments_of ?w' n))"
    by (simp only:)
  with run marked show ?thesis
    by (intro exI [of _ ?w']) simp
qed

lemma marked_after_create:
  assumes calls: "failures w = []"
    and pages: "0 < per_page w"
    and none: "marked_comments (comment_marker m) n w = []"
    and fresh: "next_id w \<notin> id_comment ` set (comments_of w n)"
    and ids: "distinct (map id_comment (comments_of w n))"
    and marker: "markerText c = m"
  shows "\<exists>w'. comment (world_process a) (world_context ctx sha) n c w = (Inr (), w')
     \<and> marked_comments (comment_marker m) n w'
         = [\<lparr>id_comment = next_id w,
             body_comment = Some (comment_body (world_process a) (world_context ctx sha) c)\<rparr>]
     \<and> distinct (map id_comment (comments_of w' n))
     \<and> failures w' = [] \<and> per_page w' = per_page w"
proof -
  let ?B = "comment_body (world_process a) (world_context ctx sha) c"
  let ?new = "\<lparr>id_comment = next_id w, body_comment = Some ?B\<rparr>"
  let ?w' = "w\<lparr>comments_of := (comments_of w) (n := comments_of w n @ [?new]),
        next_id := next_id w + 1, failures := []\<rparr>"
  from none pages have "filter (matcher (comment_marker m)) (concat (chunk (per_page w) (comments_of w n))) = []"
    by (simp add: marked_comments_def concat_chunk)
  then have "findCommentId (comment_marker (markerText c)) (chunk (per_page w) (comments_of w n)) None = None"
    using marker by (simp add: findCommentId_none)
  then have run: "comment (world_process a) (world_context ctx sha) n c w = (Inr (), ?w')"
    using world_comment_creates [OF calls, of c n a ctx sha] by simp
  have "matcher (comment_marker m) ?new"
    by (rule matcher_composed_body [OF marker])
  with none have marked: "marked_comments (comment_marker m) n ?w' = [?new]"
    by (simp add: marked_comments_def)
  have "distinct (map id_comment (comments_of ?w' n))"
    using ids fresh by simp
  with run marked show ?thesis
    by (intro exI [of _ ?w']) simp
qed

text \<open>
  Claim C1, as amended. Take an issue that holds at most one comment with the marker
  token of \<open>m\<close>, that comment having an id other than 0, where the ids of the issue's
  comments are distinct and the id given to the next comment is not 0 and not in use,
  and let the calls to GitHub succeed. Then \<^verbatim>\<open>comment\<close> run twice on that issue with
  the marker text \<open>m\<close>, with any two titles and bodies, succeeds both times and
  leaves exactly one comment with the marker token, whose body is the body composed by
  the second run.
\<close>

theorem comment_twice_leaves_one_marked_comment:
  assumes at_most_one: "length (marked_comments (comment_marker m) n w) \<le> 1"
    and nonzero: "\<forall>x \<in> set (marked_comments (comment_marker m) n w). id_comment x \<noteq> 0"
    and ids: "distinct (map id_comment (comments_of w n))"
    and next_nonzero: "next_id w \<noteq> 0"
    and fresh: "next_id w \<notin> id_comment ` set (comments_of w n)"
    and pages: "0 < per_page w"
    and calls: "failures w = []"
    and first_marker: "markerText c1 = m"
    and second_marker: "markerText c2 = m"
  shows "\<exists>w1 w2 x.
      comment (world_process a1) (world_context ctx1 sha1) n c1 w = (Inr (), w1)
      \<and> comment (world_process a2) (world_context ctx2 sha2) n c2 w1 = (Inr (), w2)
      \<and> marked_comments (comment_marker m) n w2 = [x]
      \<and> body_comment x = Some (comment_body (world_process a2) (world_context ctx2 sha2) c2)"
proof -
  have "\<exists>w1 y. comment (world_process a1) (world_context ctx1 sha1) n c1 w = (Inr (), w1)
      \<and> marked_comments (comment_marker m) n w1 = [y] \<and> id_comment y \<noteq> 0
      \<and> distinct (map id_comment (comments_of w1 n))
      \<and> failures w1 = [] \<and> 0 < per_page w1"
  proof (cases "marked_comments (comment_marker m) n w")
    case Nil
    from marked_after_create [OF calls pages Nil fresh ids first_marker, of a1 ctx1 sha1]
      next_nonzero pages
    show ?thesis by auto
  next
    case (Cons x xs)
    with at_most_one have one: "marked_comments (comment_marker m) n w = [x]" by simp
    with nonzero have "id_comment x \<noteq> 0" by simp
    from marked_after_update [OF calls pages one this ids first_marker, of a1 ctx1 sha1]
      \<open>id_comment x \<noteq> 0\<close> pages
    show ?thesis by auto
  qed
  then obtain w1 y where
    first: "comment (world_process a1) (world_context ctx1 sha1) n c1 w = (Inr (), w1)"
    and one: "marked_comments (comment_marker m) n w1 = [y]"
    and y_nonzero: "id_comment y \<noteq> 0"
    and ids1: "distinct (map id_comment (comments_of w1 n))"
    and calls1: "failures w1 = []"
    and pages1: "0 < per_page w1"
    by blast
  from marked_after_update [OF calls1 pages1 one y_nonzero ids1 second_marker, of a2 ctx2 sha2]
  obtain w2 where
    second: "comment (world_process a2) (world_context ctx2 sha2) n c2 w1 = (Inr (), w2)"
    and marked: "marked_comments (comment_marker m) n w2
         = [y\<lparr>body_comment := Some (comment_body (world_process a2) (world_context ctx2 sha2) c2)\<rparr>]"
    by blast
  from first second marked show ?thesis
    by (intro exI [of _ w1] exI [of _ w2]
        exI [of _ "y\<lparr>body_comment := Some (comment_body (world_process a2) (world_context ctx2 sha2) c2)\<rparr>"])
      simp
qed

theorem comment_twice_leaves_one_marked_comment_witness:
  "\<exists>x. marked_comments (comment_marker ''m'') 5
     (snd (comment sample_process sample_context 5
             \<lparr>titleText = ''T'', markerText = ''m'', bodyText = ''second''\<rparr>
             (snd (comment sample_process sample_context 5
                     \<lparr>titleText = ''T'', markerText = ''m'', bodyText = ''first''\<rparr>
                     (sample_world [\<lparr>id_comment = 1, body_comment = Some ''unrelated''\<rparr>] [])))))
     = [x]
   \<and> body_comment x =
       Some (comment_body sample_process sample_context
               \<lparr>titleText = ''T'', markerText = ''m'', bodyText = ''second''\<rparr>)"
proof -
  let ?w = "sample_world [\<lparr>id_comment = 1, body_comment = Some ''unrelated''\<rparr>] []"
  let ?c1 = "\<lparr>titleText = ''T'', markerText = ''m'', bodyText = ''first''\<rparr>"
  let ?c2 = "\<lparr>titleText = ''T'', markerText = ''m'', bodyText = ''second''\<rparr>"
  have none: "marked_comments (comment_marker ''m'') 5 ?w = []"
    by (simp add: marked_comments_def matcher_def comment_marker_def sample_world_def)
  have at_most_one: "length (marked_comments (comment_marker ''m'') 5 ?w) \<le> 1"
    using none by simp
  have nonzero: "\<forall>x \<in> set (marked_comments (comment_marker ''m'') 5 ?w). id_comment x \<noteq> 0"
    using none by simp
  have ids: "distinct (map id_comment (comments_of ?w 5))"
    by (simp add: sample_world_def)
  have next_nonzero: "next_id ?w \<noteq> 0"
    by (simp add: sample_world_def)
  have fresh: "next_id ?w \<notin> id_comment ` set (comments_of ?w 5)"
    by (simp add: sample_world_def)
  have pages: "0 < per_page ?w"
    by (simp add: sample_world_def)
  have calls: "failures ?w = []"
    by (simp add: sample_world_def)
  have first_marker: "markerText ?c1 = ''m''" and second_marker: "markerText ?c2 = ''m''"
    by simp_all
  from comment_twice_leaves_one_marked_comment
    [OF at_most_one nonzero ids next_nonzero fresh pages calls first_marker second_marker,
     of "Some ''1''" "\<lparr>repo_of = \<lparr>owner = ''alphagov'', repo = ''govuk-frontend''\<rparr>, runId = 7\<rparr>" "''abc''"
        "Some ''1''" "\<lparr>repo_of = \<lparr>owner = ''alphagov'', repo = ''govuk-frontend''\<rparr>, runId = 7\<rparr>" "''abc''"]
  obtain w1 w2 x where
    "comment sample_process sample_context 5 ?c1 ?w = (Inr (), w1)"
    "comment sample_process sample_context 5 ?c2 w1 = (Inr (), w2)"
    "marked_comments (comment_marker ''m'') 5 w2 = [x]"
    "body_comment x = Some (comment_body sample_process sample_context ?c2)"
    unfolding sample_process_def sample_context_def by blast
  then show ?thesis
    by (intro exI [of _ x]) simp
qed

text \<open>
  Against claim C1 as it is written (for every issue): issue 5 already holds two
  comments with the marker token. After \<^verbatim>\<open>comment\<close> has run twice, both still have it:
  the second has the body of the second run and the first is as it was.
\<close>

theorem comment_twice_keeps_both_marked_comments:
  "marked_comments (comment_marker ''m'') 5
     (snd (comment sample_process sample_context 5
             \<lparr>titleText = ''T'', markerText = ''m'', bodyText = ''second''\<rparr>
             (snd (comment sample_process sample_context 5
                     \<lparr>titleText = ''T'', markerText = ''m'', bodyText = ''first''\<rparr>
                     (sample_world
                        [\<lparr>id_comment = 1, body_comment = Some ''<!-- m --> one''\<rparr>,
                         \<lparr>id_comment = 2, body_comment = Some ''<!-- m --> two''\<rparr>] [])))))
   = [\<lparr>id_comment = 1, body_comment = Some ''<!-- m --> one''\<rparr>,
      \<lparr>id_comment = 2,
       body_comment = Some (comment_body sample_process sample_context
                              \<lparr>titleText = ''T'', markerText = ''m'', bodyText = ''second''\<rparr>)\<rparr>]"
  by (simp add: marked_comments_def comment_defs world_defs sample_defs string_of_nat_7)

end
